theory Spec2Isabelle
  imports Complex_Main
begin

section \<open>JavaScript values\<close>

text \<open>
  A JavaScript number is a real, extended with \<open>NaN\<close> and the two infinities. The
  arithmetic operations round their exact result with a function \<open>rnd\<close> that the
  engine fixes: for IEEE doubles, the rounding to the nearest double. Overflow to an
  infinity, underflow and the sign of zero are not modelled.
\<close>

datatype jsnum = NaN | NegInf | Fin real | PosInf

datatype jsval =
    JNull
  | JBool bool
  | JNum jsnum
  | JStr string
  | JArr "jsval list"
  | JObj "(string \<times> jsval) list"

text \<open>The comparison \<open>a < b\<close> of two numbers; any comparison with \<open>NaN\<close> is false.\<close>

fun js_lt :: "jsnum \<Rightarrow> jsnum \<Rightarrow> bool" where
  "js_lt NaN _ = False"
| "js_lt _ NaN = False"
| "js_lt NegInf NegInf = False"
| "js_lt NegInf _ = True"
| "js_lt _ NegInf = False"
| "js_lt PosInf _ = False"
| "js_lt (Fin a) PosInf = True"
| "js_lt (Fin a) (Fin b) = (a < b)"

definition js_gt :: "jsnum \<Rightarrow> jsnum \<Rightarrow> bool" where
  "js_gt a b = js_lt b a"

text \<open>
  The product \<open>a * b\<close>, rounded by \<open>rnd\<close>; an infinity times zero is \<open>NaN\<close>.
\<close>

fun js_mul :: "(real \<Rightarrow> real) \<Rightarrow> jsnum \<Rightarrow> jsnum \<Rightarrow> jsnum" where
  "js_mul rnd NaN _ = NaN"
| "js_mul rnd _ NaN = NaN"
| "js_mul rnd (Fin a) (Fin b) = Fin (rnd (a * b))"
| "js_mul rnd (Fin a) PosInf = (if a = 0 then NaN else if 0 < a then PosInf else NegInf)"
| "js_mul rnd (Fin a) NegInf = (if a = 0 then NaN else if 0 < a then NegInf else PosInf)"
| "js_mul rnd PosInf (Fin b) = (if b = 0 then NaN else if 0 < b then PosInf else NegInf)"
| "js_mul rnd NegInf (Fin b) = (if b = 0 then NaN else if 0 < b then NegInf else PosInf)"
| "js_mul rnd PosInf PosInf = PosInf"
| "js_mul rnd PosInf NegInf = NegInf"
| "js_mul rnd NegInf PosInf = NegInf"
| "js_mul rnd NegInf NegInf = PosInf"

text \<open>
  The quotient \<open>a / b\<close>, rounded by \<open>rnd\<close>; a finite number over an infinity is zero.
\<close>

fun js_div :: "(real \<Rightarrow> real) \<Rightarrow> jsnum \<Rightarrow> jsnum \<Rightarrow> jsnum" where
  "js_div rnd NaN _ = NaN"
| "js_div rnd _ NaN = NaN"
| "js_div rnd (Fin a) (Fin b) =
     (if b = 0 then (if a = 0 then NaN else if 0 < a then PosInf else NegInf)
      else Fin (rnd (a / b)))"
| "js_div rnd (Fin a) _ = Fin 0"
| "js_div rnd PosInf (Fin b) = (if 0 \<le> b then PosInf else NegInf)"
| "js_div rnd NegInf (Fin b) = (if 0 \<le> b then NegInf else PosInf)"
| "js_div rnd _ _ = NaN"

text \<open>
  \<open>Math.round\<close>: the nearest integer, a half rounded towards plus infinity; \<open>NaN\<close>
  and the infinities are returned as they are.
\<close>

fun Math_round :: "jsnum \<Rightarrow> jsnum" where
  "Math_round (Fin x) = Fin (of_int \<lfloor>x + 1 / 2\<rfloor>)"
| "Math_round n = n"

text \<open>The idiom \<open>n || 0\<close> on a number: \<open>NaN\<close> and zero are falsy.\<close>

definition or_zero :: "jsnum \<Rightarrow> jsnum" where
  "or_zero n = (if n = NaN \<or> n = Fin 0 then Fin 0 else n)"

text \<open>The truthiness of an optional string: \<open>undefined\<close> and the empty string are falsy.\<close>

definition truthy :: "string option \<Rightarrow> bool" where
  "truthy s = (case s of None \<Rightarrow> False | Some t \<Rightarrow> t \<noteq> [])"

text \<open>
  The functions of the JavaScript engine that the services call are parameters of the
  model. \<open>JSON_parse\<close> returns \<open>None\<close> where \<open>JSON.parse\<close> throws a SyntaxError;
  \<open>parseFloat\<close> takes any value, as the engine's does (it converts its argument to a
  string first); \<open>Number_toString\<close> is the conversion \<open>n + ""\<close>; \<open>JSON_stringify\<close>
  is \<open>JSON.stringify(v, null, 2)\<close>; \<open>uniqid\<close> gives the n-th identifier that the
  uniqid package generates, without its prefix; \<open>fround\<close> is the rounding of the
  engine's arithmetic.
\<close>

record runtime =
  JSON_parse :: "string \<Rightarrow> jsval option"
  parseFloat :: "jsval \<Rightarrow> jsnum"
  Number_toString :: "jsnum \<Rightarrow> string"
  JSON_stringify :: "jsval \<Rightarrow> string"
  uniqid :: "nat \<Rightarrow> string"
  fround :: "real \<Rightarrow> real"

text \<open>
  What the weight normalizer needs of the engine's rounding, and what the rounding to the
  nearest double gives: it is monotone on the numbers from 0 on, it keeps 0, 1 and 1000,
  and between a thousandth and 1001 its relative error is at most \<open>2 ^ -53\<close>. Exact arithmetic, where the
  rounding is the identity, is one instance.
\<close>

definition nearestRounding :: "(real \<Rightarrow> real) \<Rightarrow> bool" where
  "nearestRounding rnd =
     ((\<forall>x y. 0 \<le> x \<and> x \<le> y \<longrightarrow> rnd x \<le> rnd y)
      \<and> rnd 0 = 0 \<and> rnd 1 = 1 \<and> rnd 1000 = 1000
      \<and> (\<forall>x. 1 / 1000 \<le> x \<and> x \<le> 1001 \<longrightarrow> \<bar>rnd x - x\<bar> \<le> x / 2 ^ 53))"

text \<open>
  The comparison \<open>a === b\<close> of two numbers: \<open>NaN\<close> is not equal to itself.
\<close>

definition js_strict_eq :: "jsnum \<Rightarrow> jsnum \<Rightarrow> bool" where
  "js_strict_eq a b = (a \<noteq> NaN \<and> b \<noteq> NaN \<and> a = b)"

text \<open>
  The rounding of IEEE 754 double arithmetic, to the nearest double with ties to even,
  on the normal range: the exponent is unbounded, so there is no overflow and no
  subnormal number. \<open>double_ulp x\<close> is the distance between the doubles around
  \<open>x\<close>.
\<close>

definition round_half_even :: "real \<Rightarrow> int" where
  "round_half_even q =
     (let n = \<lfloor>q\<rfloor> in
      if q - of_int n < 1 / 2 then n
      else if 1 / 2 < q - of_int n then n + 1
      else if even n then n else n + 1)"

definition double_ulp :: "real \<Rightarrow> real" where
  "double_ulp x = 2 powr (of_int \<lfloor>log 2 \<bar>x\<bar>\<rfloor> - 52)"

definition double_round :: "real \<Rightarrow> real" where
  "double_round x =
     (if x = 0 then 0
      else sgn x * (of_int (round_half_even (\<bar>x\<bar> / double_ulp x)) * double_ulp x))"

section \<open>The value coercer and the weight normalizer\<close>

definition roundVariationWeight :: "runtime \<Rightarrow> jsnum \<Rightarrow> jsnum" where
  "roundVariationWeight rt num =
     js_div (fround rt) (Math_round (js_mul (fround rt) num (Fin 1000))) (Fin 1000)"

definition getJSONValue :: "runtime \<Rightarrow> string \<Rightarrow> string \<Rightarrow> jsval" where
  "getJSONValue rt type val =
     (if type = ''json'' then
        (case JSON_parse rt val of Some v \<Rightarrow> v | None \<Rightarrow> JNull)
      else if type = ''number'' then JNum (or_zero (parseFloat rt (JStr val)))
      else if type = ''string'' then JStr val
      else if type = ''boolean'' then (if val = ''false'' then JBool False else JBool True)
      else JNull)"

section \<open>Stored features\<close>

text \<open>
  The documents that the persistence layer returns. A field that the code tests for
  presence is an option; a flag that the code only tests for truth is a boolean.
\<close>

record ExperimentValue =
  v_value :: string
  v_weight :: jsnum

record NamespaceValue =
  ns_enabled :: bool
  ns_name :: string
  ns_range :: "jsval \<times> jsval"

text \<open>
  A rule is one object whose \<open>type\<close> field is a string; the fields of the three kinds
  of rule stand side by side, as they do in the stored object.
\<close>

record FeatureRule =
  r_id :: "string option"
  r_type :: string
  r_enabled :: bool
  r_condition :: "string option"
  r_value :: string
  r_values :: "ExperimentValue list"
  r_coverage :: "jsnum option"
  r_trackingKey :: "string option"
  r_hashAttribute :: "string option"
  r_namespace :: "NamespaceValue option"

record FeatureEnvironment =
  env_enabled :: bool
  env_rules :: "FeatureRule list option"

text \<open>
  The environment settings are an object keyed by environment name: an association list
  in the order of the object's keys, read with \<^const>\<open>map_of\<close>.
\<close>

record FeatureInterface =
  f_id :: string
  f_archived :: bool
  f_description :: "string option"
  f_organization :: string
  f_owner :: string
  f_project :: "string option"
  f_dateCreated :: nat
  f_dateUpdated :: nat
  f_valueType :: string
  f_defaultValue :: string
  f_tags :: "string list option"
  f_environmentSettings :: "(string \<times> FeatureEnvironment) list option"
  f_draft :: "jsval option"
  f_revision :: "jsval option"

section \<open>Compiled definitions\<close>

record FeatureDefinitionRule =
  condition :: "jsval option"
  force :: "jsval option"
  variations :: "jsval list option"
  coverage :: "jsnum option"
  weights :: "jsnum list option"
  key :: "string option"
  hashAttribute :: "string option"
  namespace :: "(string \<times> jsnum \<times> jsnum) option"

record FeatureDefinition =
  defaultValue :: jsval
  rules :: "FeatureDefinitionRule list option"

text \<open>The object literal \<open>{}\<close> that every compiled rule starts from.\<close>

definition emptyRule :: FeatureDefinitionRule where
  "emptyRule =
     \<lparr>condition = None, force = None, variations = None, coverage = None, weights = None,
      key = None, hashAttribute = None, namespace = None\<rparr>"

text \<open>
  The first step of the callback that \<open>getFeatureDefinitions\<close> maps over the enabled
  rules: the condition is parsed inside a try block whose catch block is empty.
\<close>

definition parseCondition :: "runtime \<Rightarrow> FeatureRule \<Rightarrow> FeatureDefinitionRule" where
  "parseCondition rt r =
     (case r_condition r of
        None \<Rightarrow> emptyRule
      | Some c \<Rightarrow>
          if c \<noteq> [] \<and> c \<noteq> ''{}'' then
            (case JSON_parse rt c of
               Some j \<Rightarrow> emptyRule\<lparr>condition := Some j\<rparr>
             | None \<Rightarrow> emptyRule)
          else emptyRule)"

text \<open>The two clamps of the source, each with the comparisons in the order it writes them.\<close>

definition clampWeight :: "jsnum \<Rightarrow> jsnum" where
  "clampWeight w = (if js_lt w (Fin 0) then Fin 0 else if js_gt w (Fin 1) then Fin 1 else w)"

definition clampCoverage :: "jsnum \<Rightarrow> jsnum" where
  "clampCoverage c = (if js_gt c (Fin 1) then Fin 1 else if js_lt c (Fin 0) then Fin 0 else c)"

definition compileNamespace :: "runtime \<Rightarrow> NamespaceValue \<Rightarrow> string \<times> jsnum \<times> jsnum" where
  "compileNamespace rt ns =
     (ns_name ns,
      or_zero (parseFloat rt (fst (ns_range ns))),
      or_zero (parseFloat rt (snd (ns_range ns))))"

text \<open>
  The callback itself. An absent \<open>coverage\<close> compares false with both bounds and is
  copied as it is, so the rollout branch maps the clamp over the option.
\<close>

definition compileRule :: "runtime \<Rightarrow> string \<Rightarrow> FeatureRule \<Rightarrow> FeatureDefinitionRule" where
  "compileRule rt valueType r =
     (let rule = parseCondition rt r in
      if r_type r = ''force'' then
        rule\<lparr>force := Some (getJSONValue rt valueType (r_value r))\<rparr>
      else if r_type r = ''experiment'' then
        rule\<lparr>variations := Some (map (\<lambda>v. getJSONValue rt valueType (v_value v)) (r_values r)),
             coverage := r_coverage r,
             weights := Some (map (roundVariationWeight rt)
                               (map clampWeight (map v_weight (r_values r)))),
             key := (if truthy (r_trackingKey r) then r_trackingKey r else None),
             hashAttribute := (if truthy (r_hashAttribute r) then r_hashAttribute r else None),
             namespace :=
               (case r_namespace r of
                  None \<Rightarrow> None
                | Some ns \<Rightarrow>
                    if ns_enabled ns \<and> ns_name ns \<noteq> [] then Some (compileNamespace rt ns)
                    else None)\<rparr>
      else if r_type r = ''rollout'' then
        rule\<lparr>force := Some (getJSONValue rt valueType (r_value r)),
             coverage := map_option clampCoverage (r_coverage r),
             hashAttribute := (if truthy (r_hashAttribute r) then r_hashAttribute r else None)\<rparr>
      else rule)"

text \<open>The lookup \<open>feature.environmentSettings?.[environment]\<close>.\<close>

definition settingsOf :: "FeatureInterface \<Rightarrow> string \<Rightarrow> FeatureEnvironment option" where
  "settingsOf feature environment =
     (case f_environmentSettings feature of
        None \<Rightarrow> None
      | Some es \<Rightarrow> map_of es environment)"

definition compiledRules ::
  "runtime \<Rightarrow> string \<Rightarrow> FeatureEnvironment \<Rightarrow> FeatureDefinitionRule list" where
  "compiledRules rt valueType settings =
     (case env_rules settings of
        None \<Rightarrow> []
      | Some rs \<Rightarrow> map (compileRule rt valueType) (filter r_enabled rs))"

text \<open>
  The object that the \<open>forEach\<close> callback builds for a feature: the object literal,
  with its \<open>rules\<close> field deleted when that field holds an empty array.
\<close>

definition featureDefinition ::
  "runtime \<Rightarrow> FeatureInterface \<Rightarrow> FeatureEnvironment \<Rightarrow> FeatureDefinition" where
  "featureDefinition rt feature settings =
     (let rs = compiledRules rt (f_valueType feature) settings in
      \<lparr>defaultValue = getJSONValue rt (f_valueType feature) (f_defaultValue feature),
       rules = (if rs = [] then None else Some rs)\<rparr>)"

text \<open>
  The object \<open>defs\<close>: its own properties, a map from feature keys to definitions, and
  the definition that has become its prototype, if one has. The assignment
  \<open>defs[key] = value\<close> stores an own property under every key but \<open>__proto__\<close>: for
  that key it runs the setter that every plain object inherits, which makes the value the
  prototype of \<open>defs\<close> and stores no property. The test and the deletion that follow
  the assignment read \<open>defs[key]\<close>, which is the value just assigned in both cases.
\<close>

record defsObject =
  entries :: "string \<rightharpoonup> FeatureDefinition"
  prototype :: "FeatureDefinition option"

definition emptyObject :: defsObject where
  "emptyObject = \<lparr>entries = Map.empty, prototype = None\<rparr>"

definition assign :: "string \<Rightarrow> FeatureDefinition \<Rightarrow> defsObject \<Rightarrow> defsObject" where
  "assign k d defs =
     (if k = ''__proto__'' then defs\<lparr>prototype := Some d\<rparr>
      else defs\<lparr>entries := (entries defs)(k \<mapsto> d)\<rparr>)"

text \<open>The \<open>forEach\<close> callback: a feature that is not skipped is assigned under its id.\<close>

definition addDefinition ::
  "runtime \<Rightarrow> string \<Rightarrow> FeatureInterface \<Rightarrow> defsObject \<Rightarrow> defsObject" where
  "addDefinition rt environment feature defs =
     (case settingsOf feature environment of
        None \<Rightarrow> defs
      | Some settings \<Rightarrow>
          if \<not> env_enabled settings \<or> f_archived feature then defs
          else assign (f_id feature) (featureDefinition rt feature settings) defs)"

text \<open>
  \<open>getFeatureDefinitions\<close>: the features come from the persistence layer's
  \<open>getAllFeatures\<close>, a parameter here; the environment defaults to production.
  \<open>definitionsObject\<close> is the object \<open>defs\<close> that the function returns, and
  \<open>getFeatureDefinitions\<close> is the mapping that this object holds: its own properties,
  which are what a caller enumerates, spreads or serializes.
\<close>

definition definitionsObject ::
  "runtime \<Rightarrow> (string \<Rightarrow> string option \<Rightarrow> FeatureInterface list) \<Rightarrow> string
     \<Rightarrow> string option \<Rightarrow> string option \<Rightarrow> defsObject" where
  "definitionsObject rt getAllFeatures organization environment project =
     (let env = (case environment of None \<Rightarrow> ''production'' | Some e \<Rightarrow> e);
          features = getAllFeatures organization project
      in fold (addDefinition rt env) features emptyObject)"

definition getFeatureDefinitions ::
  "runtime \<Rightarrow> (string \<Rightarrow> string option \<Rightarrow> FeatureInterface list) \<Rightarrow> string
     \<Rightarrow> string option \<Rightarrow> string option \<Rightarrow> (string \<rightharpoonup> FeatureDefinition)" where
  "getFeatureDefinitions rt getAllFeatures organization environment project =
     entries (definitionsObject rt getAllFeatures organization environment project)"

section \<open>Creating and updating features\<close>

text \<open>
  An exception is a value: every \<open>throw new Error(message)\<close> of the services is the
  result \<open>Inl (Error message)\<close>.
\<close>

datatype error = Error string

text \<open>
  The update request is a partial feature: the list of its fields in the order of
  \<open>Object.keys\<close>. The service reads the values of the four fields it allows; of any
  other field it reads the name only, which is all that \<open>U_other\<close> keeps.
\<close>

datatype UpdateField =
    U_tags "string list"
  | U_description string
  | U_project string
  | U_owner string
  | U_other string

fun fieldName :: "UpdateField \<Rightarrow> string" where
  "fieldName (U_tags _) = ''tags''"
| "fieldName (U_description _) = ''description''"
| "fieldName (U_project _) = ''project''"
| "fieldName (U_owner _) = ''owner''"
| "fieldName (U_other k) = k"

definition Object_keys :: "UpdateField list \<Rightarrow> string list" where
  "Object_keys updates = map fieldName updates"

text \<open>
  The calls to the collaborators that are not part of the services: the feature and
  project models and the webhook queue. A service returns the calls it made, in order.
  \<open>Call_updateFeature organization id updates now\<close> is the call
  \<open>updateFeature(organization, id, {...updates, dateUpdated: now})\<close>.
\<close>

datatype call =
    Call_createFeature FeatureInterface
  | Call_updateFeature string string "UpdateField list" nat
  | Call_findProjectById string string
  | Call_queueWebhook string "string list" "string list" bool

record world =
  calls :: "call list"
  nextId :: nat

definition getEnabledEnvironments :: "FeatureInterface \<Rightarrow> string list" where
  "getEnabledEnvironments feature =
     (let es = (case f_environmentSettings feature of None \<Rightarrow> [] | Some es \<Rightarrow> es) in
      filter (\<lambda>env. case map_of es env of None \<Rightarrow> False | Some e \<Rightarrow> env_enabled e)
        (map fst es))"

definition generateRuleId :: "runtime \<Rightarrow> world \<Rightarrow> string \<times> world" where
  "generateRuleId rt w = (''fr_'' @ uniqid rt (nextId w), w\<lparr>nextId := Suc (nextId w)\<rparr>)"

text \<open>\<open>addIdsToRules\<close>: the inner loop over the rules of one environment.\<close>

fun addIdsToRuleList ::
  "runtime \<Rightarrow> string \<Rightarrow> FeatureRule list \<Rightarrow> world \<Rightarrow> FeatureRule list \<times> world" where
  "addIdsToRuleList rt featureId [] w = ([], w)"
| "addIdsToRuleList rt featureId (r # rs) w =
     (let r1 = (if r_type r = ''experiment'' \<and> \<not> truthy (r_trackingKey r)
                then r\<lparr>r_trackingKey := Some featureId\<rparr> else r);
          (r2, w1) = (if \<not> truthy (r_id r1)
                      then (let (i, w') = generateRuleId rt w in (r1\<lparr>r_id := Some i\<rparr>, w'))
                      else (r1, w));
          (rs', w2) = addIdsToRuleList rt featureId rs w1
      in (r2 # rs', w2))"

text \<open>\<open>addIdsToRules\<close>: the outer loop over the environments.\<close>

fun addIdsToEnvs ::
  "runtime \<Rightarrow> string \<Rightarrow> (string \<times> FeatureEnvironment) list \<Rightarrow> world
     \<Rightarrow> (string \<times> FeatureEnvironment) list \<times> world" where
  "addIdsToEnvs rt featureId [] w = ([], w)"
| "addIdsToEnvs rt featureId ((name, env) # es) w =
     (let (env', w1) =
            (case env_rules env of
               None \<Rightarrow> (env, w)
             | Some rs \<Rightarrow>
                 (let (rs', w') = addIdsToRuleList rt featureId rs w
                  in (env\<lparr>env_rules := Some rs'\<rparr>, w')));
          (es', w2) = addIdsToEnvs rt featureId es w1
      in ((name, env') # es', w2))"

definition addIdsToRules ::
  "runtime \<Rightarrow> (string \<times> FeatureEnvironment) list option \<Rightarrow> string \<Rightarrow> world
     \<Rightarrow> (string \<times> FeatureEnvironment) list option \<times> world" where
  "addIdsToRules rt environmentSettings featureId w =
     (case environmentSettings of
        None \<Rightarrow> (None, w)
      | Some es \<Rightarrow> (let (es', w') = addIdsToEnvs rt featureId es w in (Some es', w')))"

text \<open>The idiom \<open>s || ""\<close> on an optional string.\<close>

definition or_empty :: "string option \<Rightarrow> string" where
  "or_empty s = (case s of None \<Rightarrow> [] | Some t \<Rightarrow> t)"

text \<open>
  \<open>featureUpdated\<close>: its one effect is the call that queues the webhook. The previous
  project is a string, empty by default.
\<close>

definition featureUpdated :: "FeatureInterface \<Rightarrow> string list \<Rightarrow> string \<Rightarrow> world \<Rightarrow> world" where
  "featureUpdated feature previousEnvironments previousProject w =
     (let currentEnvironments = getEnabledEnvironments feature in
      w\<lparr>calls := calls w @
         [Call_queueWebhook (f_organization feature)
            (currentEnvironments @ previousEnvironments)
            [previousProject, or_empty (f_project feature)]
            True]\<rparr>)"

definition parseDefaultValue :: "runtime \<Rightarrow> string \<Rightarrow> string \<Rightarrow> error + string" where
  "parseDefaultValue rt dv valueType =
     (if valueType = ''boolean'' then Inr (if dv = ''true'' then ''true'' else ''false'')
      else if valueType = ''number'' then Inr (Number_toString rt (parseFloat rt (JStr dv)))
      else if valueType = ''string'' then Inr dv
      else
        (case JSON_parse rt dv of
           Some j \<Rightarrow> Inr (JSON_stringify rt j)
         | None \<Rightarrow> Inl (Error ''JSON parse error for default value'')))"

text \<open>The regular expression \<open>/^[a-zA-Z0-9_.:|-]+$/\<close> that a feature key must match.\<close>

definition keyChar :: "char \<Rightarrow> bool" where
  "keyChar c =
     (c \<in> set (''abcdefghijklmnopqrstuvwxyz'' @ ''ABCDEFGHIJKLMNOPQRSTUVWXYZ'' @
               ''0123456789'' @ ''_.:|-''))"

definition matchesKey :: "string \<Rightarrow> bool" where
  "matchesKey s = (s \<noteq> [] \<and> list_all keyChar s)"

text \<open>
  \<open>toLowerCase\<close>, on the characters that a key can hold: the 26 capital letters are
  the only ones it changes.
\<close>

definition lowerChar :: "char \<Rightarrow> char" where
  "lowerChar c =
     (case map_of (zip ''ABCDEFGHIJKLMNOPQRSTUVWXYZ'' ''abcdefghijklmnopqrstuvwxyz'') c of
        None \<Rightarrow> c
      | Some l \<Rightarrow> l)"

definition toLowerCase :: "string \<Rightarrow> string" where
  "toLowerCase s = map lowerChar s"

text \<open>The request of \<open>createFeatureService\<close> is a partial feature: every field is optional.\<close>

record PartialFeature =
  p_id :: "string option"
  p_archived :: "bool option"
  p_description :: "string option"
  p_organization :: "string option"
  p_owner :: "string option"
  p_project :: "string option"
  p_valueType :: "string option"
  p_defaultValue :: "string option"
  p_tags :: "string list option"
  p_environmentSettings :: "(string \<times> FeatureEnvironment) list option"
  p_draft :: "jsval option"
  p_revision :: "jsval option"

definition createFeatureService ::
  "runtime \<Rightarrow> nat \<Rightarrow> PartialFeature \<Rightarrow> world \<Rightarrow> (error + FeatureInterface) \<times> world" where
  "createFeatureService rt now feature w =
     (if \<not> truthy (p_id feature) then (Inl (Error ''Must specify feature key''), w)
      else if \<not> matchesKey (the (p_id feature)) then
        (Inl (Error
           ''Feature keys can only include letters, numbers, hyphens, and underscores.''), w)
      else if \<not> truthy (p_organization feature) then
        (Inl (Error ''Organization could not be found''), w)
      else if \<not> truthy (p_owner feature) then (Inl (Error ''Owner must be specified''), w)
      else if \<not> truthy (p_valueType feature) then
        (Inl (Error ''Value type must be specified''), w)
      else if the (p_valueType feature) \<notin> set [''boolean'', ''number'', ''string'', ''json''] then
        (Inl (Error ''Value type must be one of boolean, number, string, or json''), w)
      else if \<not> truthy (p_defaultValue feature) then
        (Inl (Error ''Default value must be specified''), w)
      else
        (case parseDefaultValue rt (the (p_defaultValue feature)) (the (p_valueType feature)) of
           Inl e \<Rightarrow> (Inl e, w)
         | Inr dv \<Rightarrow>
             (let newId = toLowerCase (the (p_id feature));
                  (es, w1) = addIdsToRules rt (p_environmentSettings feature) newId w;
                  resultFeature =
                    \<lparr>f_id = newId,
                     f_archived = (case p_archived feature of None \<Rightarrow> False | Some a \<Rightarrow> a),
                     f_description = p_description feature,
                     f_organization = the (p_organization feature),
                     f_owner = the (p_owner feature),
                     f_project = p_project feature,
                     f_dateCreated = now,
                     f_dateUpdated = now,
                     f_valueType = the (p_valueType feature),
                     f_defaultValue = dv,
                     f_tags = p_tags feature,
                     f_environmentSettings = es,
                     f_draft = p_draft feature,
                     f_revision = p_revision feature\<rparr>;
                  w2 = w1\<lparr>calls := calls w1 @ [Call_createFeature resultFeature]\<rparr>;
                  w3 = featureUpdated resultFeature [] [] w2
              in (Inr resultFeature, w3))))"

definition allowedKeys :: "string list" where
  "allowedKeys = [''tags'', ''description'', ''project'', ''owner'']"

text \<open>\<open>invalidKeys.join(", ")\<close>.\<close>

fun join :: "string \<Rightarrow> string list \<Rightarrow> string" where
  "join sep [] = []"
| "join sep [x] = x"
| "join sep (x # y # ys) = x @ sep @ join sep (y # ys)"

text \<open>The spread \<open>{ ...feature, ...updates }\<close>, one field of the updates at a time.\<close>

fun applyUpdate :: "UpdateField \<Rightarrow> FeatureInterface \<Rightarrow> FeatureInterface" where
  "applyUpdate (U_tags t) f = f\<lparr>f_tags := Some t\<rparr>"
| "applyUpdate (U_description d) f = f\<lparr>f_description := Some d\<rparr>"
| "applyUpdate (U_project p) f = f\<lparr>f_project := Some p\<rparr>"
| "applyUpdate (U_owner ow) f = f\<lparr>f_owner := ow\<rparr>"
| "applyUpdate (U_other k) f = f"

text \<open>The field \<open>updates.project\<close>.\<close>

fun updatesProject :: "UpdateField list \<Rightarrow> string option" where
  "updatesProject [] = None"
| "updatesProject (U_project p # us) = Some p"
| "updatesProject (u # us) = updatesProject us"

text \<open>
  \<open>updateFeatureService\<close>: \<open>findProjectById\<close> is the project model's lookup, true
  when it finds the project. The block that checks the project either throws, or leaves
  the flag \<open>requiresWebhook\<close>; \<open>projectCheck\<close> is the outcome of that block.
\<close>

datatype projectCheck = NoProject | ProjectNotFound | ProjectFound bool

definition updateFeatureService ::
  "(string \<Rightarrow> string \<Rightarrow> bool) \<Rightarrow> nat \<Rightarrow> UpdateField list \<Rightarrow> FeatureInterface \<Rightarrow> string
     \<Rightarrow> world \<Rightarrow> (error + FeatureInterface) \<times> world" where
  "updateFeatureService findProjectById now updates feature featureId w =
     (let invalidKeys = filter (\<lambda>k. k \<notin> set allowedKeys) (Object_keys updates) in
      if invalidKeys \<noteq> [] then
        (Inl (Error (''Invalid update fields for feature: ['' @ join '', '' invalidKeys @ '']'')), w)
      else
        (let (check, w1) =
               (if truthy (updatesProject updates) then
                  (let p = the (updatesProject updates);
                       w' = w\<lparr>calls := calls w @
                              [Call_findProjectById p (f_organization feature)]\<rparr>
                   in if \<not> findProjectById p (f_organization feature) then (ProjectNotFound, w')
                      else (ProjectFound (Some p \<noteq> f_project feature), w'))
                else (NoProject, w))
         in if check = ProjectNotFound then (Inl (Error ''Project not found''), w1)
            else
              (let requiresWebhook = (check = ProjectFound True);
                   w2 = w1\<lparr>calls := calls w1 @
                          [Call_updateFeature (f_organization feature) featureId updates now]\<rparr>;
                   newFeature = fold applyUpdate updates feature;
                   w3 = (if requiresWebhook
                         then featureUpdated newFeature (getEnabledEnvironments feature)
                                (or_empty (f_project feature)) w2
                         else w2)
               in (Inr newFeature, w3))))"

section \<open>Concrete collaborators for the examples\<close>

text \<open>
  A feature model held in memory: \<open>getAllFeatures\<close> returns the stored features of the
  organization, and of the project when one is given.
\<close>

definition featuresIn ::
  "FeatureInterface list \<Rightarrow> string \<Rightarrow> string option \<Rightarrow> FeatureInterface list" where
  "featuresIn store organization project =
     filter (\<lambda>f. f_organization f = organization \<and> (\<not> truthy project \<or> f_project f = project))
       store"

text \<open>
  The engine's functions on the inputs that the examples below use; on those inputs
  they return what the engine returns. The sample engine computes with exact reals.
\<close>

definition sampleParse :: "string \<Rightarrow> jsval option" where
  "sampleParse s =
     (if s = ''[1]'' then Some (JArr [JNum (Fin 1)])
      else if s = ''true'' then Some (JBool True)
      else if s = ''null'' then Some JNull
      else None)"

definition sampleFloat :: "jsval \<Rightarrow> jsnum" where
  "sampleFloat v =
     (case v of
        JNum n \<Rightarrow> n
      | JStr s \<Rightarrow>
          (if s = ''0.1'' then Fin (1 / 10)
           else if s = ''0.6'' then Fin (6 / 10)
           else if s = ''0'' then Fin 0
           else if s = ''42'' then Fin 42
           else NaN)
      | _ \<Rightarrow> NaN)"

definition sampleRuntime :: runtime where
  "sampleRuntime =
     \<lparr>JSON_parse = sampleParse,
      parseFloat = sampleFloat,
      Number_toString = (\<lambda>n. if n = Fin 42 then ''42'' else ''NaN''),
      JSON_stringify = (\<lambda>v. if v = JBool True then ''true'' else ''null''),
      uniqid = (\<lambda>n. replicate (Suc n) (CHR ''a'')),
      fround = (\<lambda>x. x)\<rparr>"

text \<open>
  The sample engine with the arithmetic of doubles, and the double nearest to 0.0045,
  which lies below it.
\<close>

definition doubleRuntime :: runtime where
  "doubleRuntime = sampleRuntime\<lparr>fround := double_round\<rparr>"

definition nearest0045 :: real where
  "nearest0045 = 5188146770730811 / 2 ^ 60"

section \<open>Sample rules and features\<close>

text \<open>A force rule whose condition is not JSON.\<close>

definition badConditionRule :: FeatureRule where
  "badConditionRule =
     \<lparr>r_id = Some ''fr_1'', r_type = ''force'', r_enabled = True,
      r_condition = Some ''{bad json'', r_value = ''true'', r_values = [],
      r_coverage = None, r_trackingKey = None, r_hashAttribute = None, r_namespace = None\<rparr>"

text \<open>An experiment rule with a namespace whose range is stored as strings.\<close>

definition namespaceRule :: FeatureRule where
  "namespaceRule =
     \<lparr>r_id = Some ''fr_2'', r_type = ''experiment'', r_enabled = True,
      r_condition = None, r_value = [],
      r_values = [\<lparr>v_value = ''true'', v_weight = Fin (1 / 2)\<rparr>,
                  \<lparr>v_value = ''false'', v_weight = Fin (1 / 2)\<rparr>],
      r_coverage = Some (Fin 1), r_trackingKey = Some ''exp-1'', r_hashAttribute = Some ''id'',
      r_namespace =
        Some \<lparr>ns_enabled = True, ns_name = ''n1'', ns_range = (JStr ''0.1'', JStr ''0.6'')\<rparr>\<rparr>"

text \<open>The same experiment rule with the weights 1.23456 and -0.2.\<close>

definition weightsRule :: FeatureRule where
  "weightsRule =
     namespaceRule\<lparr>r_values := [\<lparr>v_value = ''true'', v_weight = Fin 1.23456\<rparr>,
                                \<lparr>v_value = ''false'', v_weight = Fin (- 0.2)\<rparr>]\<rparr>"

text \<open>A rule whose type is none of force, experiment and rollout, and a feature that holds it.\<close>

definition unknownRule :: FeatureRule where
  "unknownRule =
     \<lparr>r_id = Some ''fr_3'', r_type = ''schedule'', r_enabled = True,
      r_condition = None, r_value = ''true'', r_values = [],
      r_coverage = None, r_trackingKey = None, r_hashAttribute = None, r_namespace = None\<rparr>"

definition unknownRuleFeature :: FeatureInterface where
  "unknownRuleFeature =
     \<lparr>f_id = ''new-checkout'', f_archived = False, f_description = None,
      f_organization = ''org_1'', f_owner = ''ann'', f_project = None,
      f_dateCreated = 0, f_dateUpdated = 0, f_valueType = ''boolean'',
      f_defaultValue = ''false'', f_tags = None,
      f_environmentSettings =
        Some [(''production'', \<lparr>env_enabled = True, env_rules = Some [unknownRule]\<rparr>)],
      f_draft = None, f_revision = None\<rparr>"

text \<open>
  The feature of the end-to-end scenario, with its rollout rule, and five variants of it:
  archived, disabled in production, set up for staging only, with its one rule disabled,
  and with the key \<open>__proto__\<close>, which the key check of \<open>createFeatureService\<close>
  accepts.
\<close>

definition rolloutRule :: FeatureRule where
  "rolloutRule =
     \<lparr>r_id = Some ''fr_4'', r_type = ''rollout'', r_enabled = True,
      r_condition = None, r_value = ''false'', r_values = [],
      r_coverage = Some (Fin (3 / 2)), r_trackingKey = None, r_hashAttribute = Some ''id'',
      r_namespace = None\<rparr>"

definition bannerFeature :: FeatureInterface where
  "bannerFeature =
     \<lparr>f_id = ''show-banner'', f_archived = False, f_description = None,
      f_organization = ''org_1'', f_owner = ''ann'', f_project = None,
      f_dateCreated = 0, f_dateUpdated = 0, f_valueType = ''boolean'',
      f_defaultValue = ''true'', f_tags = None,
      f_environmentSettings =
        Some [(''production'', \<lparr>env_enabled = True, env_rules = Some [rolloutRule]\<rparr>)],
      f_draft = None, f_revision = None\<rparr>"

definition archivedFeature :: FeatureInterface where
  "archivedFeature = bannerFeature\<lparr>f_id := ''old-flag'', f_archived := True\<rparr>"

definition disabledFeature :: FeatureInterface where
  "disabledFeature =
     bannerFeature\<lparr>f_id := ''dark-mode'',
       f_environmentSettings :=
         Some [(''production'', \<lparr>env_enabled = False, env_rules = Some [rolloutRule]\<rparr>)]\<rparr>"

definition stagingFeature :: FeatureInterface where
  "stagingFeature =
     bannerFeature\<lparr>f_id := ''beta-search'',
       f_environmentSettings :=
         Some [(''staging'', \<lparr>env_enabled = True, env_rules = Some [rolloutRule]\<rparr>)]\<rparr>"

definition quietFeature :: FeatureInterface where
  "quietFeature =
     bannerFeature\<lparr>f_id := ''quiet-flag'',
       f_environmentSettings :=
         Some [(''production'',
                \<lparr>env_enabled = True,
                 env_rules = Some [rolloutRule\<lparr>r_enabled := False\<rparr>]\<rparr>)]\<rparr>"

definition protoFeature :: FeatureInterface where
  "protoFeature = bannerFeature\<lparr>f_id := ''__proto__''\<rparr>"

definition sampleStore :: "FeatureInterface list" where
  "sampleStore = [bannerFeature, archivedFeature, disabledFeature, stagingFeature, quietFeature]"

text \<open>
  A request to create the feature of the scenario, with a capital in its key, the
  default "yes" and a rule that has no id yet; and a project model that knows one
  project.
\<close>

definition bannerRequest :: PartialFeature where
  "bannerRequest =
     \<lparr>p_id = Some ''Show-Banner'', p_archived = None, p_description = None,
      p_organization = Some ''org_1'', p_owner = Some ''ann'', p_project = None,
      p_valueType = Some ''boolean'', p_defaultValue = Some ''yes'', p_tags = None,
      p_environmentSettings =
        Some [(''production'',
               \<lparr>env_enabled = True, env_rules = Some [rolloutRule\<lparr>r_id := None\<rparr>]\<rparr>)],
      p_draft = None, p_revision = None\<rparr>"

definition sampleProjects :: "string \<Rightarrow> string \<Rightarrow> bool" where
  "sampleProjects project organization = (project = ''prj_1'' \<and> organization = ''org_1'')"

section \<open>Properties of the value coercer and of the weights\<close>

lemma or_zero_NaN: "or_zero n = (if n = NaN then Fin 0 else n)"
  by (simp add: or_zero_def)

text \<open>
  Claim C1. For every raw string, \<open>getJSONValue\<close> returns: with type json the parsed
  structure, or null when the parse fails; with type number the parsed float, or 0 when
  the parse gives NaN; with type string the raw value; with type boolean false exactly
  when the raw value is the string "false", and true for every other string, among them
  the empty string, "0" and "no"; and null for every other value type.
\<close>

theorem getJSONValue_coerces:
  "getJSONValue rt ''json'' v = (case JSON_parse rt v of Some j \<Rightarrow> j | None \<Rightarrow> JNull)
   \<and> getJSONValue rt ''number'' v =
       (if parseFloat rt (JStr v) = NaN then JNum (Fin 0) else JNum (parseFloat rt (JStr v)))
   \<and> getJSONValue rt ''string'' v = JStr v
   \<and> (getJSONValue rt ''boolean'' v = JBool False \<longleftrightarrow> v = ''false'')
   \<and> (getJSONValue rt ''boolean'' v = JBool True \<longleftrightarrow> v \<noteq> ''false'')
   \<and> getJSONValue rt ''boolean'' [] = JBool True
   \<and> getJSONValue rt ''boolean'' ''0'' = JBool True
   \<and> getJSONValue rt ''boolean'' ''no'' = JBool True
   \<and> (t \<notin> {''json'', ''number'', ''string'', ''boolean''} \<longrightarrow> getJSONValue rt t v = JNull)"
  by (simp add: getJSONValue_def or_zero_NaN)

text \<open>
  The value coercer on the sample engine: a malformed and a well-formed JSON text, a
  string that is no number and one that is, and a value type that does not exist.
\<close>

theorem getJSONValue_coerces_witness:
  "getJSONValue sampleRuntime ''json'' ''{not valid'' = JNull
   \<and> getJSONValue sampleRuntime ''json'' ''[1]'' = JArr [JNum (Fin 1)]
   \<and> getJSONValue sampleRuntime ''number'' ''abc'' = JNum (Fin 0)
   \<and> getJSONValue sampleRuntime ''number'' ''42'' = JNum (Fin 42)
   \<and> getJSONValue sampleRuntime ''date'' ''2020'' = JNull"
  using getJSONValue_coerces [of sampleRuntime "''{not valid''" "''date''"]
    getJSONValue_coerces [of sampleRuntime "''[1]''" "''date''"]
    getJSONValue_coerces [of sampleRuntime "''abc''" "''date''"]
    getJSONValue_coerces [of sampleRuntime "''42''" "''date''"]
    getJSONValue_coerces [of sampleRuntime "''2020''" "''date''"]
  by (simp add: sampleRuntime_def sampleParse_def sampleFloat_def)

subsection \<open>Weights\<close>

lemma clampWeight_cases:
  "clampWeight NaN = NaN" "clampWeight NegInf = Fin 0" "clampWeight PosInf = Fin 1"
  "clampWeight (Fin x) = Fin (if x < 0 then 0 else if 1 < x then 1 else x)"
  by (simp_all add: clampWeight_def js_gt_def)

lemma roundVariationWeight_cases:
  "roundVariationWeight rt NaN = NaN" "roundVariationWeight rt NegInf = NegInf"
  "roundVariationWeight rt PosInf = PosInf"
  "roundVariationWeight rt (Fin x) =
     Fin (fround rt (of_int \<lfloor>fround rt (x * 1000) + 1 / 2\<rfloor> / 1000))"
  by (simp_all add: roundVariationWeight_def)

lemma nearestRounding_small_error:
  assumes "nearestRounding rnd" "1 / 1000 \<le> x" "x \<le> 1001"
  shows "\<bar>rnd x - x\<bar> \<le> x / 10000"
proof -
  from assms have "\<bar>rnd x - x\<bar> \<le> x / 2 ^ 53" by (simp add: nearestRounding_def)
  also have "x / 2 ^ 53 \<le> x / 10000"
    using assms(2) by (intro divide_left_mono) simp_all
  finally show ?thesis .
qed

lemma nearestRounding_range:
  assumes "nearestRounding rnd" "0 \<le> x" "x \<le> 1"
  shows "0 \<le> rnd x" "rnd x \<le> 1" "0 \<le> rnd (x * 1000)" "rnd (x * 1000) \<le> 1000"
proof -
  from assms(1) have m: "\<And>a b. 0 \<le> a \<Longrightarrow> a \<le> b \<Longrightarrow> rnd a \<le> rnd b"
    and z: "rnd 0 = 0" and o: "rnd 1 = 1" and t: "rnd 1000 = 1000"
    by (simp_all add: nearestRounding_def)
  from m[of 0 x] assms(2) z show "0 \<le> rnd x" by simp
  from m[of x 1] assms(2,3) o show "rnd x \<le> 1" by simp
  have s: "0 \<le> x * 1000" "x * 1000 \<le> 1000" using assms by simp_all
  from m[of 0 "x * 1000"] s z show "0 \<le> rnd (x * 1000)" by simp
  from m[of "x * 1000" 1000] s t show "rnd (x * 1000) \<le> 1000" by simp
qed

text \<open>A thousandth k / 1000 survives the second pass: it is scaled back to k.\<close>

lemma thousandth_fixed:
  assumes r: "nearestRounding rnd" and k: "0 \<le> k" "k \<le> 1000"
  shows "\<lfloor>rnd (rnd (real_of_int k / 1000) * 1000) + 1 / 2\<rfloor> = k"
proof (cases "k = 0")
  case True
  with r show ?thesis by (simp add: nearestRounding_def)
next
  case False
  with k have k1: "1 \<le> real_of_int k" "real_of_int k \<le> 1000" by simp_all
  let ?a = "real_of_int k / 1000"
  let ?w = "rnd ?a"
  have a: "1 / 1000 \<le> ?a" "?a \<le> 1001" using k1 by simp_all
  from nearestRounding_small_error[OF r a] have e1: "\<bar>?w - ?a\<bar> \<le> ?a / 10000" .
  then have "?a - ?a / 10000 \<le> ?w" "?w \<le> ?a + ?a / 10000"
    by linarith+
  then have w: "real_of_int k * (9999 / 10000) \<le> ?w * 1000"
      "?w * 1000 \<le> real_of_int k * (10001 / 10000)"
    by linarith+
  have b: "1 / 1000 \<le> ?w * 1000" "?w * 1000 \<le> 1001" using w k1 by simp_all
  from nearestRounding_small_error[OF r b]
  have e2: "\<bar>rnd (?w * 1000) - ?w * 1000\<bar> \<le> ?w * 1000 / 10000" .
  have "real_of_int k - 1 / 2 \<le> rnd (?w * 1000)" "rnd (?w * 1000) < real_of_int k + 1 / 2"
    using e2 w k1 by linarith+
  then show ?thesis by (simp add: floor_eq_iff)
qed

text \<open>The normalization of one weight, applied twice, gives what it gives applied once.\<close>

lemma normalize_twice:
  assumes "nearestRounding (fround rt)"
  shows "roundVariationWeight rt (clampWeight (roundVariationWeight rt (clampWeight w)))
           = roundVariationWeight rt (clampWeight w)"
proof -
  let ?rnd = "fround rt"
  have clamped: "roundVariationWeight rt (clampWeight (roundVariationWeight rt (Fin x)))
                   = roundVariationWeight rt (Fin x)" if x: "0 \<le> x" "x \<le> 1" for x
  proof -
    let ?k = "\<lfloor>?rnd (x * 1000) + 1 / 2\<rfloor>"
    from nearestRounding_range(3,4)[OF assms x] have k: "0 \<le> ?k" "?k \<le> 1000"
      by (simp_all add: le_floor_iff floor_le_iff)
    then have "0 \<le> real_of_int ?k / 1000" "real_of_int ?k / 1000 \<le> 1" by simp_all
    from nearestRounding_range(1,2)[OF assms this]
    have "clampWeight (Fin (?rnd (real_of_int ?k / 1000))) = Fin (?rnd (real_of_int ?k / 1000))"
      by (simp add: clampWeight_cases)
    with thousandth_fixed[OF assms k] show ?thesis
      by (simp add: roundVariationWeight_cases)
  qed
  show ?thesis
  proof (cases w)
    case (Fin x)
    have "0 \<le> (if x < 0 then 0 else if 1 < x then 1 else x)"
      "(if x < 0 then 0 else if 1 < x then 1 else x) \<le> 1" by simp_all
    from clamped[OF this] Fin show ?thesis by (simp only: clampWeight_cases)
  next
    case NegInf
    with clamped[of 0] show ?thesis by (simp add: clampWeight_cases)
  next
    case PosInf
    with clamped[of 1] show ?thesis by (simp add: clampWeight_cases)
  qed (simp add: clampWeight_cases roundVariationWeight_cases)
qed

lemma normalize_NaN:
  "roundVariationWeight rt (clampWeight w) = NaN \<longleftrightarrow> w = NaN"
  by (cases w) (simp_all add: clampWeight_cases roundVariationWeight_cases)

lemma normalize_examples:
  assumes "nearestRounding (fround rt)"
  shows "roundVariationWeight rt (clampWeight (Fin 1.23456)) = Fin 1"
    and "roundVariationWeight rt (clampWeight (Fin (- 0.2))) = Fin 0"
proof -
  from assms have z: "fround rt 0 = 0" and o: "fround rt 1 = 1" and t: "fround rt 1000 = 1000"
    by (simp_all add: nearestRounding_def)
  show "roundVariationWeight rt (clampWeight (Fin 1.23456)) = Fin 1"
    by (simp add: clampWeight_cases roundVariationWeight_cases t o)
  show "roundVariationWeight rt (clampWeight (Fin (- 0.2))) = Fin 0"
    by (simp add: clampWeight_cases roundVariationWeight_cases z)
qed

text \<open>The weights of a compiled experiment rule: each stored weight, normalized.\<close>

lemma weights_compileRule:
  "r_type r = ''experiment'' \<Longrightarrow>
   weights (compileRule rt vt r) =
     Some (map (\<lambda>v. roundVariationWeight rt (clampWeight (v_weight v))) (r_values r))"
  by (simp add: compileRule_def comp_def)

text \<open>
  Claim C5. The normalization of an experiment weight, as the rule compiler runs it on
  the weights of an experiment rule (the clamp to the interval from 0 to 1, then
  \<open>roundVariationWeight\<close>), is idempotent: applied twice it gives what it gives applied
  once, for every weight, so a rule that stores its compiled weights compiles to the same
  weights. It maps 1.23456 to 1 and -0.2 to 0. This holds for every rounding of the
  arithmetic that is a rounding to nearest. The equality is that of values: the weight
  \<open>NaN\<close> is normalized to \<open>NaN\<close> both times, and for every other weight the two
  results are numbers that \<open>===\<close> holds equal.
\<close>

theorem weight_normalization_idempotent:
  assumes "nearestRounding (fround rt)"
  shows "(r_type r = ''experiment'' \<longrightarrow>
            weights (compileRule rt vt r) =
              Some (map (\<lambda>v. roundVariationWeight rt (clampWeight (v_weight v))) (r_values r))
            \<and> weights (compileRule rt vt
                 (r\<lparr>r_values :=
                      map (\<lambda>v. v\<lparr>v_weight := roundVariationWeight rt (clampWeight (v_weight v))\<rparr>)
                        (r_values r)\<rparr>))
               = weights (compileRule rt vt r))
         \<and> (r_type r = ''experiment''
              \<and> map v_weight (r_values r) = [Fin 1.23456, Fin (- 0.2)] \<longrightarrow>
            weights (compileRule rt vt r) = Some [Fin 1, Fin 0])
         \<and> roundVariationWeight rt (clampWeight (roundVariationWeight rt (clampWeight w)))
             = roundVariationWeight rt (clampWeight w)
         \<and> (w \<noteq> NaN \<longrightarrow>
              js_strict_eq
                (roundVariationWeight rt (clampWeight (roundVariationWeight rt (clampWeight w))))
                (roundVariationWeight rt (clampWeight w)))
         \<and> roundVariationWeight rt (clampWeight NaN) = NaN
         \<and> roundVariationWeight rt (clampWeight (Fin 1.23456)) = Fin 1
         \<and> roundVariationWeight rt (clampWeight (Fin (- 0.2))) = Fin 0"
proof (intro conjI impI)
  assume e: "r_type r = ''experiment''"
  then show "weights (compileRule rt vt r) =
              Some (map (\<lambda>v. roundVariationWeight rt (clampWeight (v_weight v))) (r_values r))"
    by (rule weights_compileRule)
  let ?r' = "r\<lparr>r_values :=
                 map (\<lambda>v. v\<lparr>v_weight := roundVariationWeight rt (clampWeight (v_weight v))\<rparr>)
                   (r_values r)\<rparr>"
  from e have "r_type ?r' = ''experiment''" by simp
  from weights_compileRule[OF this] weights_compileRule[OF e]
  show "weights (compileRule rt vt ?r') = weights (compileRule rt vt r)"
    by (simp add: comp_def normalize_twice[OF assms])
next
  assume "r_type r = ''experiment'' \<and> map v_weight (r_values r) = [Fin 1.23456, Fin (- 0.2)]"
  then have e: "r_type r = ''experiment''"
    and ws: "map v_weight (r_values r) = [Fin 1.23456, Fin (- 0.2)]" by simp_all
  have "map (\<lambda>v. roundVariationWeight rt (clampWeight (v_weight v))) (r_values r)
          = map (\<lambda>w. roundVariationWeight rt (clampWeight w)) (map v_weight (r_values r))"
    by (simp add: comp_def)
  with ws weights_compileRule[OF e] normalize_examples[OF assms]
  show "weights (compileRule rt vt r) = Some [Fin 1, Fin 0]" by simp
next
  show "roundVariationWeight rt (clampWeight (roundVariationWeight rt (clampWeight w)))
             = roundVariationWeight rt (clampWeight w)"
    by (rule normalize_twice[OF assms])
next
  assume "w \<noteq> NaN"
  then have "roundVariationWeight rt (clampWeight w) \<noteq> NaN" by (simp add: normalize_NaN)
  with normalize_twice[OF assms, of w]
  show "js_strict_eq
          (roundVariationWeight rt (clampWeight (roundVariationWeight rt (clampWeight w))))
          (roundVariationWeight rt (clampWeight w))"
    by (simp add: js_strict_eq_def)
next
  show "roundVariationWeight rt (clampWeight NaN) = NaN" by (simp add: normalize_NaN)
qed (rule normalize_examples[OF assms])+

subsection \<open>The rounding to the nearest double\<close>

lemma round_half_even_floor:
  "\<lfloor>q\<rfloor> \<le> round_half_even q" "round_half_even q \<le> \<lfloor>q\<rfloor> + 1"
  by (simp_all add: round_half_even_def Let_def)

lemma round_half_even_error: "\<bar>of_int (round_half_even q) - q\<bar> \<le> 1 / 2"
  unfolding round_half_even_def Let_def by (auto simp: abs_le_iff)

lemma round_half_even_mono:
  assumes "q \<le> q'"
  shows "round_half_even q \<le> round_half_even q'"
proof (cases "\<lfloor>q\<rfloor> = \<lfloor>q'\<rfloor>")
  case True
  with assms show ?thesis
    unfolding round_half_even_def Let_def by auto
next
  case False
  with assms have "\<lfloor>q\<rfloor> < \<lfloor>q'\<rfloor>" using floor_mono[of q q'] by linarith
  with round_half_even_floor(2)[of q] round_half_even_floor(1)[of q'] show ?thesis by linarith
qed

lemma round_half_even_int: "round_half_even (of_int n) = n"
  by (simp add: round_half_even_def)

lemma binade:
  assumes "0 < x"
  shows "2 powr of_int \<lfloor>log 2 x\<rfloor> \<le> x" "x < 2 powr (of_int \<lfloor>log 2 x\<rfloor> + 1)"
proof -
  have "2 powr of_int \<lfloor>log 2 x\<rfloor> \<le> 2 powr log 2 x"
    by (intro powr_mono) simp_all
  with assms show "2 powr of_int \<lfloor>log 2 x\<rfloor> \<le> x" by simp
  have "log 2 x < of_int \<lfloor>log 2 x\<rfloor> + 1" by linarith
  then have "2 powr log 2 x < 2 powr (of_int \<lfloor>log 2 x\<rfloor> + 1)"
    by (intro powr_less_mono) simp_all
  with assms show "x < 2 powr (of_int \<lfloor>log 2 x\<rfloor> + 1)" by simp
qed

lemma double_round_pos:
  assumes "0 < x"
  shows "double_round x = of_int (round_half_even (x / double_ulp x)) * double_ulp x"
  using assms by (simp add: double_round_def)

lemma double_ulp_pos: "0 < double_ulp x"
  by (simp add: double_ulp_def)

text \<open>The quotient by the unit in the last place lies between 2 ^ 52 and 2 ^ 53.\<close>

lemma significand_range:
  assumes "0 < x"
  shows "2 ^ 52 \<le> x / double_ulp x" "x / double_ulp x < 2 ^ 53"
proof -
  let ?e = "of_int \<lfloor>log 2 x\<rfloor> :: real"
  have u: "double_ulp x = 2 powr (?e - 52)" using assms by (simp add: double_ulp_def)
  have p52: "(2::real) powr 52 = 2 ^ 52" and p53: "(2::real) powr 53 = 2 ^ 53"
    by (simp_all add: powr_numeral del: power_numeral)
  have "x / double_ulp x = x * 2 powr (52 - ?e)"
    by (simp add: u powr_diff field_simps)
  have lo: "2 powr ?e * 2 powr (52 - ?e) = 2 powr 52"
    by (simp add: powr_add[symmetric])
  have hi: "2 powr (?e + 1) * 2 powr (52 - ?e) = 2 powr 53"
    by (simp add: powr_add[symmetric])
  have q: "x / double_ulp x = x * 2 powr (52 - ?e)"
    by (simp add: u powr_diff field_simps)
  have "2 powr ?e * 2 powr (52 - ?e) \<le> x * 2 powr (52 - ?e)"
    using binade(1)[OF assms] by (intro mult_right_mono) simp_all
  with lo p52 q show "2 ^ 52 \<le> x / double_ulp x" by simp
  have "x * 2 powr (52 - ?e) < 2 powr (?e + 1) * 2 powr (52 - ?e)"
    using binade(2)[OF assms] by (intro mult_strict_right_mono) simp_all
  with hi p53 q show "x / double_ulp x < 2 ^ 53" by simp
qed

lemma double_round_binade:
  assumes "0 < x"
  shows "2 powr of_int \<lfloor>log 2 x\<rfloor> \<le> double_round x"
    "double_round x \<le> 2 powr (of_int \<lfloor>log 2 x\<rfloor> + 1)"
proof -
  let ?e = "of_int \<lfloor>log 2 x\<rfloor> :: real"
  let ?q = "x / double_ulp x"
  let ?n = "round_half_even ?q"
  have u: "double_ulp x = 2 powr (?e - 52)" using assms by (simp add: double_ulp_def)
  have p52: "(2::real) powr 52 = 2 ^ 52" and p53: "(2::real) powr 53 = 2 ^ 53"
    by (simp_all add: powr_numeral del: power_numeral)
  have "52 + (?e - 52) = ?e" by simp
  with powr_add[of 2 52 "?e - 52", symmetric]
  have "(2::real) powr 52 * 2 powr (?e - 52) = 2 powr ?e"
    by (simp only:)
  then have lo: "2 ^ 52 * double_ulp x = 2 powr ?e" by (simp only: u p52)
  have "53 + (?e - 52) = ?e + 1" by simp
  with powr_add[of 2 53 "?e - 52", symmetric]
  have "(2::real) powr 53 * 2 powr (?e - 52) = 2 powr (?e + 1)"
    by (simp only:)
  then have hi: "2 ^ 53 * double_ulp x = 2 powr (?e + 1)" by (simp only: u p53)
  from significand_range(1)[OF assms] have "(2::int) ^ 52 \<le> \<lfloor>?q\<rfloor>"
    by (simp add: le_floor_iff)
  with round_half_even_floor(1)[of ?q] have "(2::int) ^ 52 \<le> ?n" by linarith
  then have n1: "(2::real) ^ 52 \<le> of_int ?n" by (metis of_int_le_iff of_int_numeral of_int_power)
  from significand_range(2)[OF assms] have "\<lfloor>?q\<rfloor> < (2::int) ^ 53"
    by (simp add: floor_less_iff)
  with round_half_even_floor(2)[of ?q] have "?n \<le> (2::int) ^ 53" by linarith
  then have n2: "of_int ?n \<le> (2::real) ^ 53" by (metis of_int_le_iff of_int_numeral of_int_power)
  have "2 ^ 52 * double_ulp x \<le> of_int ?n * double_ulp x"
    using n1 double_ulp_pos[of x] by (intro mult_right_mono) simp_all
  with lo show "2 powr ?e \<le> double_round x" by (simp add: double_round_pos[OF assms])
  have "of_int ?n * double_ulp x \<le> 2 ^ 53 * double_ulp x"
    using n2 double_ulp_pos[of x] by (intro mult_right_mono) simp_all
  with hi show "double_round x \<le> 2 powr (?e + 1)" by (simp add: double_round_pos[OF assms])
qed

lemma double_round_mono_pos:
  assumes "0 < x" "x \<le> y"
  shows "double_round x \<le> double_round y"
proof -
  from assms have y: "0 < y" by simp
  from assms have "log 2 x \<le> log 2 y" by simp
  then have le: "\<lfloor>log 2 x\<rfloor> \<le> \<lfloor>log 2 y\<rfloor>" by (rule floor_mono)
  show ?thesis
  proof (cases "\<lfloor>log 2 x\<rfloor> = \<lfloor>log 2 y\<rfloor>")
    case True
    with assms y have u: "double_ulp x = double_ulp y" by (simp add: double_ulp_def)
    from assms(2) double_ulp_pos[of y] have "x / double_ulp y \<le> y / double_ulp y"
      by (simp add: divide_right_mono)
    then have "round_half_even (x / double_ulp y) \<le> round_half_even (y / double_ulp y)"
      by (rule round_half_even_mono)
    then have "real_of_int (round_half_even (x / double_ulp y)) * double_ulp y
                 \<le> real_of_int (round_half_even (y / double_ulp y)) * double_ulp y"
      using double_ulp_pos[of y] by (intro mult_right_mono) simp_all
    then show ?thesis by (simp add: double_round_pos[OF assms(1)] double_round_pos[OF y] u)
  next
    case False
    with le have "\<lfloor>log 2 x\<rfloor> + 1 \<le> \<lfloor>log 2 y\<rfloor>" by linarith
    then have "real_of_int \<lfloor>log 2 x\<rfloor> + 1 \<le> real_of_int \<lfloor>log 2 y\<rfloor>" by linarith
    then have "2 powr (real_of_int \<lfloor>log 2 x\<rfloor> + 1) \<le> 2 powr real_of_int \<lfloor>log 2 y\<rfloor>"
      by (intro powr_mono) simp_all
    with double_round_binade(2)[OF assms(1)] double_round_binade(1)[OF y]
    show ?thesis by linarith
  qed
qed

lemma double_round_nonneg: "0 \<le> x \<Longrightarrow> 0 \<le> double_round x"
proof (cases "x = 0")
  case True
  then show ?thesis by (simp add: double_round_def)
next
  case False
  assume "0 \<le> x"
  with False have x: "0 < x" by simp
  have "0 \<le> 2 powr real_of_int \<lfloor>log 2 x\<rfloor>" by simp
  with double_round_binade(1)[OF x] show ?thesis by linarith
qed

lemma double_round_error:
  assumes "0 < x"
  shows "\<bar>double_round x - x\<bar> \<le> x / 2 ^ 53"
proof -
  let ?e = "of_int \<lfloor>log 2 x\<rfloor> :: real"
  let ?u = "double_ulp x"
  let ?q = "x / ?u"
  have u: "?u = 2 powr (?e - 52)" using assms by (simp add: double_ulp_def)
  have p52: "(2::real) powr 52 = 2 ^ 52" by (simp add: powr_numeral del: power_numeral)
  have "52 + (?e - 52) = ?e" by simp
  with powr_add[of 2 52 "?e - 52", symmetric]
  have "(2::real) powr 52 * 2 powr (?e - 52) = 2 powr ?e"
    by (simp only:)
  then have e: "2 powr ?e = 2 ^ 52 * ?u" by (simp only: u p52)
  have x: "x = ?q * ?u" using double_ulp_pos[of x] by simp
  have "double_round x - x = (of_int (round_half_even ?q) - ?q) * ?u"
    using double_ulp_pos[of x] by (simp add: double_round_pos[OF assms] left_diff_distrib)
  then have "\<bar>double_round x - x\<bar> = \<bar>of_int (round_half_even ?q) - ?q\<bar> * ?u"
    using double_ulp_pos[of x] by (simp add: abs_mult)
  also have "\<dots> \<le> 1 / 2 * ?u"
    using round_half_even_error[of ?q] double_ulp_pos[of x] by (intro mult_right_mono) simp_all
  also have "1 / 2 * ?u = 2 powr ?e / 2 ^ 53"
    by (simp add: e)
  also have "\<dots> \<le> x / 2 ^ 53"
    using binade(1)[OF assms] by (intro divide_right_mono) simp_all
  finally show ?thesis .
qed

lemma double_round_exact:
  assumes "0 < x" "x / double_ulp x = of_int n"
  shows "double_round x = x"
proof -
  have "double_round x = of_int n * double_ulp x"
    by (simp add: double_round_pos[OF assms(1)] assms(2) round_half_even_int)
  also have "\<dots> = x / double_ulp x * double_ulp x" by (simp only: assms(2))
  also have "\<dots> = x" using double_ulp_pos[of x] by simp
  finally show ?thesis .
qed

lemma double_round_1: "double_round 1 = 1"
proof (rule double_round_exact)
  show "(0::real) < 1" by simp
  have "double_ulp 1 = 2 powr (- 52)" by (simp add: double_ulp_def)
  also have "\<dots> = 1 / 2 ^ 52" by (simp add: powr_minus_divide powr_numeral)
  finally have u: "double_ulp 1 = 1 / 2 ^ 52" .
  show "1 / double_ulp 1 = of_int (2 ^ 52)" by (simp add: u)
qed

lemma floor_log_1000: "\<lfloor>log 2 1000\<rfloor> = 9"
proof (rule floor_unique)
  have "(2::real) powr 9 \<le> 1000" by (simp add: powr_numeral)
  then show "of_int 9 \<le> log 2 1000" by (simp add: le_log_iff)
  have "(1000::real) < 2 powr 10" by (simp add: powr_numeral)
  then show "log 2 1000 < of_int 9 + 1" by (simp add: log_less_iff)
qed

lemma double_round_1000: "double_round 1000 = 1000"
proof (rule double_round_exact)
  show "(0::real) < 1000" by simp
  have "double_ulp 1000 = 2 powr (- 43)" by (simp add: double_ulp_def floor_log_1000)
  also have "\<dots> = 1 / 2 ^ 43" by (simp add: powr_minus_divide powr_numeral)
  finally have u: "double_ulp 1000 = 1 / 2 ^ 43" .
  show "1000 / double_ulp 1000 = of_int (1000 * 2 ^ 43)" by (simp add: u)
qed

lemma nearestRounding_double: "nearestRounding double_round"
  unfolding nearestRounding_def
proof (intro conjI allI impI)
  fix x y :: real
  assume "0 \<le> x \<and> x \<le> y"
  then have x: "0 \<le> x" and xy: "x \<le> y" by simp_all
  show "double_round x \<le> double_round y"
  proof (cases "x = 0")
    case True
    with xy double_round_nonneg[of y] show ?thesis by (simp add: double_round_def)
  next
    case False
    with x have "0 < x" by simp
    then show ?thesis using xy by (rule double_round_mono_pos)
  qed
next
  show "double_round 0 = 0" by (simp add: double_round_def)
  show "double_round 1 = 1" by (rule double_round_1)
  show "double_round 1000 = 1000" by (rule double_round_1000)
next
  fix x :: real
  assume "1 / 1000 \<le> x \<and> x \<le> 1001"
  then have "0 < x" by simp
  then show "\<bar>double_round x - x\<bar> \<le> x / 2 ^ 53" by (rule double_round_error)
qed

text \<open>
  The product of the double nearest to 0.0045 with 1000 lies below 4.5 and is rounded
  to 4.5, which \<open>Math.round\<close> takes to 5; in exact arithmetic it is taken to 4.
\<close>

lemma nearest0045_range: "0 \<le> nearest0045" "nearest0045 \<le> 1" "\<not> nearest0045 < 0"
  "\<not> 1 < nearest0045"
  by (simp_all add: nearest0045_def)

lemma double_round_scaled_0045: "double_round (nearest0045 * 1000) = 9 / 2"
proof -
  let ?x = "nearest0045 * 1000"
  have v: "?x = 648518346341351375 / 2 ^ 57" by (simp add: nearest0045_def)
  have pos: "0 < ?x" by (simp add: nearest0045_def)
  have fl: "\<lfloor>log 2 ?x\<rfloor> = 2"
  proof (rule floor_unique)
    have "(2::real) powr 2 \<le> ?x" by (simp add: powr_numeral nearest0045_def)
    with pos show "of_int 2 \<le> log 2 ?x" by (simp only: le_log_iff) simp
    have "?x < 2 powr 3" by (simp add: powr_numeral nearest0045_def)
    with pos have "log 2 ?x < 3" by (simp only: log_less_iff)
    then show "log 2 ?x < of_int 2 + 1" by simp
  qed
  from pos have "double_ulp ?x = 2 powr (of_int \<lfloor>log 2 ?x\<rfloor> - 52)"
    by (simp only: double_ulp_def abs_of_pos)
  also have "\<dots> = 2 powr (- 50)" by (simp only: fl) simp
  also have "\<dots> = 1 / 2 ^ 50" by (simp add: powr_minus_divide powr_numeral)
  finally have u: "double_ulp ?x = 1 / 2 ^ 50" .
  have q: "?x / double_ulp ?x = 648518346341351375 / 128"
    by (simp only: u) (simp add: nearest0045_def)
  have r: "round_half_even (648518346341351375 / 128) = 5066549580791808"
    by (simp add: round_half_even_def Let_def)
  have "double_round ?x = of_int (round_half_even (?x / double_ulp ?x)) * double_ulp ?x"
    by (rule double_round_pos[OF pos])
  also have "\<dots> = of_int (round_half_even (648518346341351375 / 128)) * double_ulp ?x"
    by (simp only: q)
  also have "\<dots> = of_int 5066549580791808 * (1 / 2 ^ 50)" by (simp only: r u)
  also have "\<dots> = 9 / 2" by simp
  finally show ?thesis .
qed

lemma nearestRounding_exact: "nearestRounding (\<lambda>x. x)"
  by (simp add: nearestRounding_def)

text \<open>
  Exact arithmetic and the arithmetic of doubles are roundings to nearest. In both the
  experiment rule with the weights 1.23456 and -0.2 compiles to the weights 1 and 0. In
  exact arithmetic a third is normalized to 0.333, and 0.333 to itself. The double
  nearest to 0.0045 is normalized to the double nearest to 0.005 by the arithmetic of
  doubles, and to 0.004 by exact arithmetic; either result is normalized to itself.
\<close>

theorem weight_normalization_idempotent_witness:
  "nearestRounding (fround sampleRuntime)
   \<and> nearestRounding (fround doubleRuntime)
   \<and> r_type weightsRule = ''experiment''
   \<and> map v_weight (r_values weightsRule) = [Fin 1.23456, Fin (- 0.2)]
   \<and> weights (compileRule sampleRuntime ''boolean'' weightsRule) = Some [Fin 1, Fin 0]
   \<and> weights (compileRule doubleRuntime ''boolean'' weightsRule) = Some [Fin 1, Fin 0]
   \<and> weights (compileRule sampleRuntime ''boolean'' namespaceRule)
       = Some [Fin (1 / 2), Fin (1 / 2)]
   \<and> roundVariationWeight sampleRuntime (clampWeight (Fin (1 / 3))) = Fin (333 / 1000)
   \<and> roundVariationWeight sampleRuntime
        (clampWeight (roundVariationWeight sampleRuntime (clampWeight (Fin (1 / 3)))))
       = Fin (333 / 1000)
   \<and> roundVariationWeight sampleRuntime (clampWeight (Fin nearest0045)) = Fin (4 / 1000)
   \<and> roundVariationWeight doubleRuntime (clampWeight (Fin nearest0045))
       = Fin (double_round (5 / 1000))
   \<and> roundVariationWeight doubleRuntime
        (clampWeight (roundVariationWeight doubleRuntime (clampWeight (Fin nearest0045))))
       = Fin (double_round (5 / 1000))"
proof -
  have r: "nearestRounding (fround sampleRuntime)"
    by (simp add: sampleRuntime_def nearestRounding_exact)
  have d: "nearestRounding (fround doubleRuntime)"
    by (simp add: doubleRuntime_def nearestRounding_double)
  have t: "r_type weightsRule = ''experiment''"
    "map v_weight (r_values weightsRule) = [Fin 1.23456, Fin (- 0.2)]"
    by (simp_all add: weightsRule_def namespaceRule_def)
  have n: "weights (compileRule sampleRuntime ''boolean'' namespaceRule)
       = Some [Fin (1 / 2), Fin (1 / 2)]"
    by (simp add: compileRule_def namespaceRule_def clampWeight_cases
        roundVariationWeight_cases sampleRuntime_def)
  have v: "roundVariationWeight sampleRuntime (clampWeight (Fin (1 / 3))) = Fin (333 / 1000)"
    by (simp add: clampWeight_cases roundVariationWeight_cases sampleRuntime_def)
  have x: "roundVariationWeight sampleRuntime (clampWeight (Fin nearest0045)) = Fin (4 / 1000)"
    by (simp add: clampWeight_cases roundVariationWeight_cases sampleRuntime_def
        nearest0045_range) (simp add: nearest0045_def)
  have y: "roundVariationWeight doubleRuntime (clampWeight (Fin nearest0045))
             = Fin (double_round (5 / 1000))"
    by (simp add: clampWeight_cases roundVariationWeight_cases doubleRuntime_def
        double_round_scaled_0045 nearest0045_range)
  note exact = weight_normalization_idempotent [OF r, of weightsRule "''boolean''" "Fin (1 / 3)"]
  note double = weight_normalization_idempotent [OF d, of weightsRule "''boolean''"
      "Fin nearest0045"]
  from exact t have c: "weights (compileRule sampleRuntime ''boolean'' weightsRule)
                          = Some [Fin 1, Fin 0]"
    by blast
  from double t have c': "weights (compileRule doubleRuntime ''boolean'' weightsRule)
                           = Some [Fin 1, Fin 0]"
    by blast
  from exact have i: "roundVariationWeight sampleRuntime
        (clampWeight (roundVariationWeight sampleRuntime (clampWeight (Fin (1 / 3)))))
       = roundVariationWeight sampleRuntime (clampWeight (Fin (1 / 3)))"
    by blast
  from double have i': "roundVariationWeight doubleRuntime
        (clampWeight (roundVariationWeight doubleRuntime (clampWeight (Fin nearest0045))))
       = roundVariationWeight doubleRuntime (clampWeight (Fin nearest0045))"
    by blast
  from r d t n v x y c c' i i' show ?thesis by (simp only:)
qed

section \<open>Properties of the rule compiler\<close>

lemma condition_parseCondition:
  "condition (parseCondition rt r) =
     (case r_condition r of
        None \<Rightarrow> None
      | Some c \<Rightarrow> if c \<noteq> [] \<and> c \<noteq> ''{}'' then JSON_parse rt c else None)"
  by (simp add: parseCondition_def emptyRule_def split: option.splits)

lemma condition_compileRule:
  "condition (compileRule rt vt r) = condition (parseCondition rt r)"
  by (simp add: compileRule_def Let_def)

text \<open>
  Claim C6. The compiled record's condition is the parsed JSON of the rule's condition
  string exactly when the condition is present, is not the string "{}", and parses as
  JSON. A parse failure is swallowed: the record has no condition then, and compiling
  the rule still gives a record. The code tests the condition for truth, so an empty
  string counts as absent; with a parser that rejects the empty string, as
  \<open>JSON.parse\<close> does, that is the claim as it is written.
\<close>

theorem compileRule_condition:
  "(condition (compileRule rt vt r) = Some j \<longleftrightarrow>
      (\<exists>c. r_condition r = Some c \<and> c \<noteq> [] \<and> c \<noteq> ''{}'' \<and> JSON_parse rt c = Some j))
   \<and> (JSON_parse rt [] = None \<longrightarrow>
        (condition (compileRule rt vt r) = Some j \<longleftrightarrow>
           (\<exists>c. r_condition r = Some c \<and> c \<noteq> ''{}'' \<and> JSON_parse rt c = Some j)))
   \<and> (r_condition r = Some c \<and> JSON_parse rt c = None \<longrightarrow>
        condition (compileRule rt vt r) = None)"
  by (auto simp: condition_compileRule condition_parseCondition split: option.splits)

text \<open>
  The rule whose condition is the text "{bad json" compiles to a record with the forced
  value and no condition; with the condition "[1]" the record holds the parsed array.
\<close>

theorem compileRule_condition_witness:
  "JSON_parse sampleRuntime [] = None
   \<and> r_condition badConditionRule = Some ''{bad json''
   \<and> JSON_parse sampleRuntime ''{bad json'' = None
   \<and> condition (compileRule sampleRuntime ''boolean'' badConditionRule) = None
   \<and> compileRule sampleRuntime ''boolean'' badConditionRule
        = emptyRule\<lparr>force := Some (JBool True)\<rparr>
   \<and> condition (compileRule sampleRuntime ''boolean''
         (badConditionRule\<lparr>r_condition := Some ''[1]''\<rparr>)) = Some (JArr [JNum (Fin 1)])"
  using compileRule_condition [of sampleRuntime "''boolean''" badConditionRule _ "''{bad json''"]
    compileRule_condition [of sampleRuntime "''boolean''"
      "badConditionRule\<lparr>r_condition := Some ''[1]''\<rparr>" "JArr [JNum (Fin 1)]" "''[1]''"]
  by (simp add: sampleRuntime_def sampleParse_def badConditionRule_def compileRule_def
      parseCondition_def getJSONValue_def)

text \<open>
  Claim C7. For an experiment rule the compiled record has a namespace exactly when the
  rule's namespace is present, enabled and has a non-empty name; the field is then the
  triple of the name and the two bounds of the range, each read with \<open>parseFloat\<close>
  and replaced by 0 when the parse fails. Otherwise the record has no namespace.
\<close>

theorem compileRule_namespace:
  "r_type r = ''experiment'' \<longrightarrow>
     namespace (compileRule rt vt r) =
       (case r_namespace r of
          None \<Rightarrow> None
        | Some ns \<Rightarrow>
            if ns_enabled ns \<and> ns_name ns \<noteq> [] then
              Some (ns_name ns,
                    (if parseFloat rt (fst (ns_range ns)) = NaN then Fin 0
                     else parseFloat rt (fst (ns_range ns))),
                    (if parseFloat rt (snd (ns_range ns)) = NaN then Fin 0
                     else parseFloat rt (snd (ns_range ns))))
            else None)
     \<and> (namespace (compileRule rt vt r) \<noteq> None \<longleftrightarrow>
          (\<exists>ns. r_namespace r = Some ns \<and> ns_enabled ns \<and> ns_name ns \<noteq> []))"
  by (auto simp: compileRule_def Let_def compileNamespace_def or_zero_NaN split: option.splits)

text \<open>
  The namespace n1 with the range "0.1" to "0.6" compiles to the triple of n1, 0.1 and
  0.6; disabled, it is absent; a bound that is no number becomes 0.
\<close>

theorem compileRule_namespace_witness:
  "r_type namespaceRule = ''experiment''
   \<and> namespace (compileRule sampleRuntime ''boolean'' namespaceRule)
       = Some (''n1'', Fin (1 / 10), Fin (6 / 10))
   \<and> namespace (compileRule sampleRuntime ''boolean''
        (namespaceRule\<lparr>r_namespace :=
           Some \<lparr>ns_enabled = False, ns_name = ''n1'',
                 ns_range = (JStr ''0.1'', JStr ''0.6'')\<rparr>\<rparr>)) = None
   \<and> namespace (compileRule sampleRuntime ''boolean''
        (namespaceRule\<lparr>r_namespace :=
           Some \<lparr>ns_enabled = True, ns_name = ''n1'',
                 ns_range = (JStr ''abc'', JNum (Fin (6 / 10)))\<rparr>\<rparr>))
       = Some (''n1'', Fin 0, Fin (6 / 10))"
  using compileRule_namespace [of namespaceRule sampleRuntime "''boolean''"]
    compileRule_namespace [of "namespaceRule\<lparr>r_namespace :=
           Some \<lparr>ns_enabled = False, ns_name = ''n1'',
                 ns_range = (JStr ''0.1'', JStr ''0.6'')\<rparr>\<rparr>" sampleRuntime "''boolean''"]
    compileRule_namespace [of "namespaceRule\<lparr>r_namespace :=
           Some \<lparr>ns_enabled = True, ns_name = ''n1'',
                 ns_range = (JStr ''abc'', JNum (Fin (6 / 10)))\<rparr>\<rparr>" sampleRuntime "''boolean''"]
  by (simp add: namespaceRule_def sampleRuntime_def sampleFloat_def)

lemma clampCoverage_cases:
  "clampCoverage NaN = NaN" "clampCoverage NegInf = Fin 0" "clampCoverage PosInf = Fin 1"
  "clampCoverage (Fin x) = Fin (if 1 < x then 1 else if x < 0 then 0 else x)"
  by (simp_all add: clampCoverage_def js_gt_def)

lemma compileRule_rollout:
  "r_type r = ''rollout'' \<Longrightarrow>
   compileRule rt vt r =
     (parseCondition rt r)
       \<lparr>force := Some (getJSONValue rt vt (r_value r)),
        coverage := map_option clampCoverage (r_coverage r),
        hashAttribute := (if truthy (r_hashAttribute r) then r_hashAttribute r else None)\<rparr>"
  by (simp add: compileRule_def)

text \<open>
  Claim C8. For a rollout rule the compiled record's force is the value coercer applied
  to the rule's value under the feature's value type; its coverage is the rule's
  coverage clamped to the interval from 0 to 1 (above 1 it becomes 1, below 0 it becomes
  0); and it has a hashAttribute exactly when the rule has a non-empty one. The
  end-to-end scenario, an organization whose one feature is the boolean feature
  show-banner with default "true" and one enabled rollout rule with value "false",
  coverage 1.5 and hashAttribute id, compiles for production to the single entry with
  default true and the one rule that forces false with coverage 1 and hashAttribute id.
\<close>

theorem compileRule_rollout_fields:
  "(r_type r = ''rollout'' \<longrightarrow>
      force (compileRule rt vt r) = Some (getJSONValue rt vt (r_value r))
      \<and> (r_coverage r = Some c \<longrightarrow>
           coverage (compileRule rt vt r)
             = Some (if js_gt c (Fin 1) then Fin 1 else if js_lt c (Fin 0) then Fin 0 else c))
      \<and> (r_coverage r = Some (Fin x) \<longrightarrow>
           coverage (compileRule rt vt r) = Some (Fin (min 1 (max 0 x))))
      \<and> (r_coverage r = None \<longrightarrow> coverage (compileRule rt vt r) = None)
      \<and> (hashAttribute (compileRule rt vt r) \<noteq> None \<longleftrightarrow>
           (\<exists>h. r_hashAttribute r = Some h \<and> h \<noteq> []))
      \<and> (\<forall>h. r_hashAttribute r = Some h \<and> h \<noteq> [] \<longrightarrow>
           hashAttribute (compileRule rt vt r) = Some h))
   \<and> (getAllFeatures organization project =
         [f\<lparr>f_id := ''show-banner'', f_archived := False, f_valueType := ''boolean'',
            f_defaultValue := ''true'',
            f_environmentSettings :=
              Some [(''production'',
                     \<lparr>env_enabled = True,
                      env_rules =
                        Some [r\<lparr>r_type := ''rollout'', r_enabled := True, r_condition := None,
                                r_value := ''false'', r_coverage := Some (Fin 1.5),
                                r_hashAttribute := Some ''id''\<rparr>]\<rparr>)]\<rparr>]
       \<and> environment \<in> {None, Some ''production''} \<longrightarrow>
       getFeatureDefinitions rt getAllFeatures organization environment project
         = [''show-banner'' \<mapsto>
              \<lparr>defaultValue = JBool True,
               rules = Some [emptyRule\<lparr>force := Some (JBool False), coverage := Some (Fin 1),
                                       hashAttribute := Some ''id''\<rparr>]\<rparr>])"
  by (auto simp: compileRule_rollout clampCoverage_def truthy_def js_gt_def
      getFeatureDefinitions_def definitionsObject_def emptyObject_def addDefinition_def
      assign_def featureDefinition_def settingsOf_def
      compiledRules_def parseCondition_def getJSONValue_def emptyRule_def
      split: option.splits)

text \<open>
  The rollout rule of the scenario, the same rule with a negative coverage and with no
  hashAttribute, and the scenario itself over the feature model held in memory.
\<close>

theorem compileRule_rollout_fields_witness:
  "r_type rolloutRule = ''rollout''
   \<and> r_coverage rolloutRule = Some (Fin (3 / 2))
   \<and> force (compileRule sampleRuntime ''boolean'' rolloutRule) = Some (JBool False)
   \<and> coverage (compileRule sampleRuntime ''boolean'' rolloutRule) = Some (Fin 1)
   \<and> hashAttribute (compileRule sampleRuntime ''boolean'' rolloutRule) = Some ''id''
   \<and> coverage (compileRule sampleRuntime ''boolean''
        (rolloutRule\<lparr>r_coverage := Some (Fin (- 1))\<rparr>)) = Some (Fin 0)
   \<and> hashAttribute (compileRule sampleRuntime ''boolean''
        (rolloutRule\<lparr>r_hashAttribute := None\<rparr>)) = None
   \<and> featuresIn [bannerFeature] ''org_1'' None = [bannerFeature]
   \<and> getFeatureDefinitions sampleRuntime (featuresIn [bannerFeature]) ''org_1''
        (Some ''production'') None
       = [''show-banner'' \<mapsto>
            \<lparr>defaultValue = JBool True,
             rules = Some [emptyRule\<lparr>force := Some (JBool False), coverage := Some (Fin 1),
                                     hashAttribute := Some ''id''\<rparr>]\<rparr>]"
proof -
  have one: "featuresIn [bannerFeature] ''org_1'' None = [bannerFeature]"
    by (simp add: featuresIn_def bannerFeature_def truthy_def)
  have same: "bannerFeature =
         bannerFeature\<lparr>f_id := ''show-banner'', f_archived := False, f_valueType := ''boolean'',
            f_defaultValue := ''true'',
            f_environmentSettings :=
              Some [(''production'',
                     \<lparr>env_enabled = True,
                      env_rules =
                        Some [rolloutRule\<lparr>r_type := ''rollout'', r_enabled := True,
                                r_condition := None,
                                r_value := ''false'', r_coverage := Some (Fin 1.5),
                                r_hashAttribute := Some ''id''\<rparr>]\<rparr>)]\<rparr>"
    by (simp add: bannerFeature_def rolloutRule_def)
  have scenario: "getFeatureDefinitions sampleRuntime (featuresIn [bannerFeature]) ''org_1''
        (Some ''production'') None
       = [''show-banner'' \<mapsto>
            \<lparr>defaultValue = JBool True,
             rules = Some [emptyRule\<lparr>force := Some (JBool False), coverage := Some (Fin 1),
                                     hashAttribute := Some ''id''\<rparr>]\<rparr>]"
    using compileRule_rollout_fields [of rolloutRule sampleRuntime "''boolean''" "Fin (3 / 2)" "3 / 2"
      "featuresIn [bannerFeature]" "''org_1''" None bannerFeature "Some ''production''"]
      one same by simp
  show ?thesis
    using compileRule_rollout_fields [of rolloutRule sampleRuntime "''boolean''" "Fin (3 / 2)" "3 / 2"
      "featuresIn [bannerFeature]" "''org_1''" None bannerFeature "Some ''production''"]
    compileRule_rollout_fields [of "rolloutRule\<lparr>r_coverage := Some (Fin (- 1))\<rparr>" sampleRuntime
      "''boolean''" "Fin (- 1)" "- 1" 
      "featuresIn [bannerFeature]" "''org_1''" None bannerFeature "Some ''production''"]
    compileRule_rollout_fields [of "rolloutRule\<lparr>r_hashAttribute := None\<rparr>" sampleRuntime
      "''boolean''" "Fin (3 / 2)" "3 / 2"
      "featuresIn [bannerFeature]" "''org_1''" None bannerFeature "Some ''production''"]
    one scenario
    by (simp add: rolloutRule_def getJSONValue_def js_gt_def)
qed

lemma parseCondition_only_condition:
  "(parseCondition rt r)\<lparr>condition := None\<rparr> = emptyRule"
  by (simp add: parseCondition_def emptyRule_def split: option.splits)

text \<open>
  Claim C2 says that a rule whose type is not force, experiment or rollout compiles to
  null and that the assembler drops it. It does not: the enabled rule of type schedule
  contributes the empty record to the compiled rules of its feature.
\<close>

theorem unrecognized_rule_counterexample:
  "r_type unknownRule \<notin> {''force'', ''experiment'', ''rollout''}
   \<and> getFeatureDefinitions sampleRuntime (featuresIn [unknownRuleFeature]) ''org_1'' None None
       = [''new-checkout'' \<mapsto> \<lparr>defaultValue = JBool False, rules = Some [emptyRule]\<rparr>]"
  by (simp add: unknownRule_def unknownRuleFeature_def getFeatureDefinitions_def
      definitionsObject_def emptyObject_def featuresIn_def truthy_def addDefinition_def
      assign_def featureDefinition_def settingsOf_def compiledRules_def compileRule_def
      parseCondition_def getJSONValue_def)

text \<open>
  Claim C2, amended. Every rule that the compiler processes yields a record, never
  null: a force or rollout rule one with a forced value, an experiment rule one with
  variations and weights, and a rule of any other type one that holds its parsed
  condition and nothing else. The assembler drops no compiled rule: the compiled rules
  are the records of the enabled rules, one for each, in order.
\<close>

theorem compileRule_keeps_every_rule:
  "(r_type r \<notin> {''force'', ''experiment'', ''rollout''} \<longrightarrow>
      compileRule rt vt r = parseCondition rt r
      \<and> (compileRule rt vt r)\<lparr>condition := None\<rparr> = emptyRule)
   \<and> (r_type r \<in> {''force'', ''rollout''} \<longrightarrow> force (compileRule rt vt r) \<noteq> None)
   \<and> (r_type r = ''experiment'' \<longrightarrow>
        variations (compileRule rt vt r) \<noteq> None \<and> weights (compileRule rt vt r) \<noteq> None)
   \<and> compiledRules rt vt settings =
        map (compileRule rt vt)
          (filter r_enabled (case env_rules settings of None \<Rightarrow> [] | Some rs \<Rightarrow> rs))
   \<and> length (compiledRules rt vt settings) =
        length (filter r_enabled (case env_rules settings of None \<Rightarrow> [] | Some rs \<Rightarrow> rs))"
  by (auto simp: compileRule_def compiledRules_def parseCondition_only_condition
      split: option.splits)

text \<open>The rule of type schedule compiles to the empty record, which is kept.\<close>

theorem compileRule_keeps_every_rule_witness:
  "r_type unknownRule \<notin> {''force'', ''experiment'', ''rollout''}
   \<and> compileRule sampleRuntime ''boolean'' unknownRule = emptyRule
   \<and> length (compiledRules sampleRuntime ''boolean''
        \<lparr>env_enabled = True, env_rules = Some [unknownRule]\<rparr>) = 1"
  using compileRule_keeps_every_rule [of unknownRule sampleRuntime "''boolean''"
      "\<lparr>env_enabled = True, env_rules = Some [unknownRule]\<rparr>"]
  by (simp add: unknownRule_def parseCondition_def)

section \<open>Properties of the assembler\<close>

lemma addDefinition_other:
  "f_id f \<noteq> k \<Longrightarrow> entries (addDefinition rt env f defs) k = entries defs k"
  by (simp add: addDefinition_def assign_def split: option.splits)

lemma addDefinition_skipped:
  "f_archived f \<or> settingsOf f env = None
     \<or> (\<exists>s. settingsOf f env = Some s \<and> \<not> env_enabled s)
   \<Longrightarrow> addDefinition rt env f defs = defs"
  by (auto simp: addDefinition_def split: option.splits)

lemma addDefinition_included:
  "settingsOf f env = Some s \<Longrightarrow> env_enabled s \<Longrightarrow> \<not> f_archived f \<Longrightarrow>
   addDefinition rt env f defs = assign (f_id f) (featureDefinition rt f s) defs"
  by (simp add: addDefinition_def)

lemma prototype_addDefinition_other:
  "f_id f \<noteq> ''__proto__'' \<Longrightarrow> prototype (addDefinition rt env f defs) = prototype defs"
  by (simp add: addDefinition_def assign_def split: option.splits)

lemma entries_addDefinition_proto:
  "f_id f = ''__proto__'' \<Longrightarrow> entries (addDefinition rt env f defs) = entries defs"
  by (simp add: addDefinition_def assign_def split: option.splits)

lemma fold_addDefinition_unchanged:
  "(\<And>g. g \<in> set fs \<Longrightarrow> f_id g = k \<Longrightarrow>
      f_archived g \<or> settingsOf g env = None
        \<or> (\<exists>s. settingsOf g env = Some s \<and> \<not> env_enabled s))
   \<Longrightarrow> entries (fold (addDefinition rt env) fs defs) k = entries defs k"
proof (induction fs arbitrary: defs)
  case Nil
  show ?case by simp
next
  case (Cons g gs)
  have step: "entries (addDefinition rt env g defs) k = entries defs k"
  proof (cases "f_id g = k")
    case True
    with Cons.prems[of g] show ?thesis by (simp add: addDefinition_skipped)
  next
    case False
    then show ?thesis by (rule addDefinition_other)
  qed
  have "entries (fold (addDefinition rt env) gs (addDefinition rt env g defs)) k
          = entries (addDefinition rt env g defs) k"
    by (rule Cons.IH) (simp add: Cons.prems)
  with step show ?case by simp
qed

lemma fold_addDefinition_absent:
  "k \<notin> f_id ` set fs \<Longrightarrow> entries (fold (addDefinition rt env) fs defs) k = entries defs k"
  by (rule fold_addDefinition_unchanged) auto

lemma fold_addDefinition_no_proto_entry:
  "entries (fold (addDefinition rt env) fs defs) ''__proto__'' = entries defs ''__proto__''"
proof (induction fs arbitrary: defs)
  case Nil
  show ?case by simp
next
  case (Cons g gs)
  have "entries (addDefinition rt env g defs) ''__proto__'' = entries defs ''__proto__''"
    by (cases "f_id g = ''__proto__''")
      (simp_all add: entries_addDefinition_proto addDefinition_other)
  with Cons.IH[of "addDefinition rt env g defs"] show ?case by simp
qed

lemma fold_addDefinition_prototype_kept:
  "''__proto__'' \<notin> f_id ` set fs \<Longrightarrow>
   prototype (fold (addDefinition rt env) fs defs) = prototype defs"
proof (induction fs arbitrary: defs)
  case Nil
  show ?case by simp
next
  case (Cons g gs)
  then have "f_id g \<noteq> ''__proto__''" "''__proto__'' \<notin> f_id ` set gs" by auto
  with Cons.IH[of "addDefinition rt env g defs"] show ?case
    by (simp add: prototype_addDefinition_other)
qed

lemma distinct_ids_same:
  "distinct (map f_id fs) \<Longrightarrow> f \<in> set fs \<Longrightarrow> g \<in> set fs \<Longrightarrow> f_id g = f_id f \<Longrightarrow> g = f"
  by (meson distinct_map inj_onD)

text \<open>
  Claim C3. The mapping that \<open>getFeatureDefinitions\<close> returns has no entry for the id
  of a feature that is archived, or has no settings for the requested environment, or
  whose settings for it are not enabled. The ids of the features are unique within the
  organization, as the data model has it.
\<close>

theorem skipped_feature_has_no_entry:
  assumes "f \<in> set (getAllFeatures organization project)"
    and "distinct (map f_id (getAllFeatures organization project))"
    and "env = (case environment of None \<Rightarrow> ''production'' | Some e \<Rightarrow> e)"
    and "f_archived f \<or> settingsOf f env = None
           \<or> (\<exists>s. settingsOf f env = Some s \<and> \<not> env_enabled s)"
  shows "getFeatureDefinitions rt getAllFeatures organization environment project (f_id f) = None"
proof -
  let ?fs = "getAllFeatures organization project"
  have "entries (fold (addDefinition rt env) ?fs emptyObject) (f_id f)
          = entries emptyObject (f_id f)"
  proof (rule fold_addDefinition_unchanged)
    fix g assume "g \<in> set ?fs" "f_id g = f_id f"
    with assms(1,2) have "g = f" by (simp add: distinct_ids_same)
    with assms(4) show "f_archived g \<or> settingsOf g env = None
           \<or> (\<exists>s. settingsOf g env = Some s \<and> \<not> env_enabled s)" by simp
  qed
  then show ?thesis
    by (simp add: getFeatureDefinitions_def definitionsObject_def emptyObject_def assms(3))
qed

lemmas sample_defs =
  sampleStore_def bannerFeature_def archivedFeature_def disabledFeature_def stagingFeature_def
  quietFeature_def rolloutRule_def featuresIn_def truthy_def settingsOf_def

text \<open>
  Of the five sample features, the archived one, the one disabled in production and the
  one set up for staging only have no entry in the production mapping.
\<close>

theorem skipped_feature_has_no_entry_witness:
  "archivedFeature \<in> set (featuresIn sampleStore ''org_1'' None)
   \<and> distinct (map f_id (featuresIn sampleStore ''org_1'' None))
   \<and> f_archived archivedFeature
   \<and> settingsOf stagingFeature ''production'' = None
   \<and> getFeatureDefinitions sampleRuntime (featuresIn sampleStore) ''org_1'' None None
        (f_id archivedFeature) = None
   \<and> getFeatureDefinitions sampleRuntime (featuresIn sampleStore) ''org_1'' None None
        (f_id disabledFeature) = None
   \<and> getFeatureDefinitions sampleRuntime (featuresIn sampleStore) ''org_1'' None None
        (f_id stagingFeature) = None"
proof -
  have members: "archivedFeature \<in> set (featuresIn sampleStore ''org_1'' None)"
    "disabledFeature \<in> set (featuresIn sampleStore ''org_1'' None)"
    "stagingFeature \<in> set (featuresIn sampleStore ''org_1'' None)"
    by (simp_all add: sample_defs)
  have ids: "distinct (map f_id (featuresIn sampleStore ''org_1'' None))"
    by (simp add: sample_defs)
  have a: "f_archived archivedFeature" by (simp add: sample_defs)
  have d: "\<exists>s. settingsOf disabledFeature ''production'' = Some s \<and> \<not> env_enabled s"
    by (simp add: sample_defs)
  have s: "settingsOf stagingFeature ''production'' = None" by (simp add: sample_defs)
  show ?thesis
    using skipped_feature_has_no_entry [of archivedFeature "featuresIn sampleStore" "''org_1''"
        None "''production''" None sampleRuntime]
      skipped_feature_has_no_entry [of disabledFeature "featuresIn sampleStore" "''org_1''"
        None "''production''" None sampleRuntime]
      skipped_feature_has_no_entry [of stagingFeature "featuresIn sampleStore" "''org_1''"
        None "''production''" None sampleRuntime]
      members ids a d s
    by simp
qed

lemma fold_addDefinition_included:
  "distinct (map f_id fs) \<Longrightarrow> f \<in> set fs \<Longrightarrow>
   settingsOf f env = Some s \<Longrightarrow> env_enabled s \<Longrightarrow> \<not> f_archived f \<Longrightarrow>
   f_id f \<noteq> ''__proto__'' \<Longrightarrow>
   entries (fold (addDefinition rt env) fs defs) (f_id f) = Some (featureDefinition rt f s)"
proof (induction fs arbitrary: defs)
  case Nil
  then show ?case by simp
next
  case (Cons g gs)
  show ?case
  proof (cases "g = f")
    case True
    with Cons.prems(1) have "f_id f \<notin> f_id ` set gs" by simp
    then have "entries (fold (addDefinition rt env) gs (addDefinition rt env f defs)) (f_id f)
                 = entries (addDefinition rt env f defs) (f_id f)"
      by (rule fold_addDefinition_absent)
    with True Cons.prems(3,4,5,6) show ?thesis
      by (simp add: addDefinition_included assign_def)
  next
    case False
    with Cons.prems have "distinct (map f_id gs)" "f \<in> set gs" by auto
    from Cons.IH[OF this Cons.prems(3,4,5,6)] show ?thesis by simp
  qed
qed

lemma fold_addDefinition_prototype:
  "distinct (map f_id fs) \<Longrightarrow> f \<in> set fs \<Longrightarrow>
   settingsOf f env = Some s \<Longrightarrow> env_enabled s \<Longrightarrow> \<not> f_archived f \<Longrightarrow>
   f_id f = ''__proto__'' \<Longrightarrow>
   prototype (fold (addDefinition rt env) fs defs) = Some (featureDefinition rt f s)"
proof (induction fs arbitrary: defs)
  case Nil
  then show ?case by simp
next
  case (Cons g gs)
  show ?case
  proof (cases "g = f")
    case True
    with Cons.prems(1,6) have "''__proto__'' \<notin> f_id ` set gs" by simp
    then have "prototype (fold (addDefinition rt env) gs (addDefinition rt env f defs))
                 = prototype (addDefinition rt env f defs)"
      by (rule fold_addDefinition_prototype_kept)
    with True Cons.prems(3,4,5,6) show ?thesis
      by (simp add: addDefinition_included assign_def)
  next
    case False
    with Cons.prems have "distinct (map f_id gs)" "f \<in> set gs" by auto
    from Cons.IH[OF this Cons.prems(3,4,5,6)] show ?thesis by simp
  qed
qed

lemma rules_featureDefinition:
  "rules (featureDefinition rt f s) =
     (let rs = map (compileRule rt (f_valueType f))
                 (filter r_enabled (case env_rules s of None \<Rightarrow> [] | Some rs \<Rightarrow> rs))
      in if rs = [] then None else Some rs)"
  by (simp add: featureDefinition_def compiledRules_def Let_def split: option.splits)

text \<open>
  Claim C4. For a feature that passes the skip check, the rules of its compiled
  definition are the enabled rules of the environment's rule sequence, in stored order,
  each passed through the rule compiler; when that sequence is empty, because the
  environment has no rules or because every rule is disabled, the definition has no
  rules field, rather than an empty sequence. The compiled definition is the entry of
  the returned mapping under the feature's id, for every id but \<open>__proto__\<close>; under
  that id the mapping has no entry, and the compiled definition is the prototype of the
  returned object.
\<close>

theorem rules_from_enabled_rules:
  assumes "f \<in> set (getAllFeatures organization project)"
    and "distinct (map f_id (getAllFeatures organization project))"
    and "env = (case environment of None \<Rightarrow> ''production'' | Some e \<Rightarrow> e)"
    and "settingsOf f env = Some s" and "env_enabled s" and "\<not> f_archived f"
  shows "\<exists>d. (f_id f \<noteq> ''__proto__'' \<longrightarrow>
                getFeatureDefinitions rt getAllFeatures organization environment project (f_id f)
                  = Some d)
          \<and> (f_id f = ''__proto__'' \<longrightarrow>
                getFeatureDefinitions rt getAllFeatures organization environment project (f_id f)
                  = None
                \<and> prototype (definitionsObject rt getAllFeatures organization environment project)
                    = Some d)
          \<and> defaultValue d = getJSONValue rt (f_valueType f) (f_defaultValue f)
          \<and> rules d =
              (let rs = map (compileRule rt (f_valueType f))
                          (filter r_enabled (case env_rules s of None \<Rightarrow> [] | Some rs \<Rightarrow> rs))
               in if rs = [] then None else Some rs)
          \<and> rules d \<noteq> Some []
          \<and> (env_rules s = None \<longrightarrow> rules d = None)
          \<and> ((\<forall>r \<in> set (case env_rules s of None \<Rightarrow> [] | Some rs \<Rightarrow> rs). \<not> r_enabled r)
                \<longrightarrow> rules d = None)"
proof -
  let ?fs = "getAllFeatures organization project"
  let ?d = "featureDefinition rt f s"
  have stored: "getFeatureDefinitions rt getAllFeatures organization environment project (f_id f)
                  = Some ?d" if "f_id f \<noteq> ''__proto__''"
    using fold_addDefinition_included[OF assms(2,1,4,5,6) that]
    by (simp add: getFeatureDefinitions_def definitionsObject_def assms(3))
  have proto: "getFeatureDefinitions rt getAllFeatures organization environment project (f_id f)
                  = None
               \<and> prototype (definitionsObject rt getAllFeatures organization environment project)
                    = Some ?d" if "f_id f = ''__proto__''"
    using fold_addDefinition_prototype[OF assms(2,1,4,5,6) that]
      fold_addDefinition_no_proto_entry[of rt env ?fs emptyObject] that
    by (simp add: getFeatureDefinitions_def definitionsObject_def assms(3) emptyObject_def)
  have dv: "defaultValue ?d = getJSONValue rt (f_valueType f) (f_defaultValue f)"
    by (simp add: featureDefinition_def Let_def)
  have none: "(\<forall>r \<in> set xs. \<not> r_enabled r) \<Longrightarrow> filter r_enabled xs = []" for xs
    by (simp add: filter_empty_conv)
  have rest: "rules ?d \<noteq> Some []
          \<and> (env_rules s = None \<longrightarrow> rules ?d = None)
          \<and> ((\<forall>r \<in> set (case env_rules s of None \<Rightarrow> [] | Some rs \<Rightarrow> rs). \<not> r_enabled r)
                \<longrightarrow> rules ?d = None)"
    using none by (auto simp: rules_featureDefinition Let_def split: option.splits)
  from stored proto dv rest rules_featureDefinition[of rt f s] show ?thesis
    by (intro exI[of _ ?d]) blast
qed

text \<open>
  The feature whose one rule is disabled compiles to a definition without rules; the
  feature of the scenario compiles to a definition with its one rule; with the key
  \<open>__proto__\<close> the same definition is the prototype, and the mapping is empty.
\<close>

theorem rules_from_enabled_rules_witness:
  "bannerFeature \<in> set (featuresIn sampleStore ''org_1'' None)
   \<and> quietFeature \<in> set (featuresIn sampleStore ''org_1'' None)
   \<and> distinct (map f_id (featuresIn sampleStore ''org_1'' None))
   \<and> getFeatureDefinitions sampleRuntime (featuresIn sampleStore) ''org_1'' None None
        ''quiet-flag'' = Some \<lparr>defaultValue = JBool True, rules = None\<rparr>
   \<and> getFeatureDefinitions sampleRuntime (featuresIn sampleStore) ''org_1'' None None
        ''show-banner''
       = Some \<lparr>defaultValue = JBool True,
               rules = Some [emptyRule\<lparr>force := Some (JBool False), coverage := Some (Fin 1),
                                       hashAttribute := Some ''id''\<rparr>]\<rparr>
   \<and> f_id protoFeature = ''__proto__''
   \<and> matchesKey (f_id protoFeature)
   \<and> getFeatureDefinitions sampleRuntime (featuresIn [protoFeature]) ''org_1'' None None
       = Map.empty
   \<and> getFeatureDefinitions sampleRuntime (featuresIn [protoFeature]) ''org_1'' None None
        ''__proto__'' = None
   \<and> prototype (definitionsObject sampleRuntime (featuresIn [protoFeature]) ''org_1'' None None)
       = Some \<lparr>defaultValue = JBool True,
               rules = Some [emptyRule\<lparr>force := Some (JBool False), coverage := Some (Fin 1),
                                       hashAttribute := Some ''id''\<rparr>]\<rparr>"
proof -
  have members: "bannerFeature \<in> set (featuresIn sampleStore ''org_1'' None)"
    "quietFeature \<in> set (featuresIn sampleStore ''org_1'' None)"
    by (simp_all add: sample_defs)
  have ids: "distinct (map f_id (featuresIn sampleStore ''org_1'' None))"
    by (simp add: sample_defs)
  have p: "protoFeature \<in> set (featuresIn [protoFeature] ''org_1'' None)"
    "distinct (map f_id (featuresIn [protoFeature] ''org_1'' None))"
    "f_id protoFeature = ''__proto__''" "\<not> f_archived protoFeature"
    "settingsOf protoFeature ''production''
       = Some \<lparr>env_enabled = True, env_rules = Some [rolloutRule]\<rparr>"
    "f_valueType protoFeature = ''boolean''" "f_defaultValue protoFeature = ''true''"
    by (simp_all add: sample_defs protoFeature_def)
  have q: "settingsOf quietFeature ''production''
             = Some \<lparr>env_enabled = True, env_rules = Some [rolloutRule\<lparr>r_enabled := False\<rparr>]\<rparr>"
    by (simp add: sample_defs)
  have b: "settingsOf bannerFeature ''production''
             = Some \<lparr>env_enabled = True, env_rules = Some [rolloutRule]\<rparr>"
    by (simp add: sample_defs)
  have na: "\<not> f_archived quietFeature" "\<not> f_archived bannerFeature"
    by (simp_all add: sample_defs)
  have r: "compileRule sampleRuntime ''boolean'' rolloutRule
             = emptyRule\<lparr>force := Some (JBool False), coverage := Some (Fin 1),
                                       hashAttribute := Some ''id''\<rparr>"
    by (simp add: compileRule_def rolloutRule_def parseCondition_def getJSONValue_def
        clampCoverage_def js_gt_def truthy_def)
  have e: "r_enabled rolloutRule" by (simp add: rolloutRule_def)
  have ty: "f_id quietFeature = ''quiet-flag''" "f_id bannerFeature = ''show-banner''"
     "f_valueType quietFeature = ''boolean''" "f_valueType bannerFeature = ''boolean''"
     "f_defaultValue quietFeature = ''true''" "f_defaultValue bannerFeature = ''true''"
    by (simp_all add: bannerFeature_def quietFeature_def)
  have gv: "getJSONValue sampleRuntime ''boolean'' ''true'' = JBool True"
    by (simp add: getJSONValue_def)
  from rules_from_enabled_rules [of quietFeature "featuresIn sampleStore" "''org_1''" None
      "''production''" None
      "\<lparr>env_enabled = True, env_rules = Some [rolloutRule\<lparr>r_enabled := False\<rparr>]\<rparr>"
      sampleRuntime] members ids q na
  have 1: "getFeatureDefinitions sampleRuntime (featuresIn sampleStore) ''org_1'' None None
        ''quiet-flag'' = Some \<lparr>defaultValue = JBool True, rules = None\<rparr>"
    by (auto simp: ty gv)
  from rules_from_enabled_rules [of bannerFeature "featuresIn sampleStore" "''org_1''" None
      "''production''" None "\<lparr>env_enabled = True, env_rules = Some [rolloutRule]\<rparr>"
      sampleRuntime] members ids b na
  have 2: "getFeatureDefinitions sampleRuntime (featuresIn sampleStore) ''org_1'' None None
        ''show-banner''
       = Some \<lparr>defaultValue = JBool True,
               rules = Some [emptyRule\<lparr>force := Some (JBool False), coverage := Some (Fin 1),
                                       hashAttribute := Some ''id''\<rparr>]\<rparr>"
    by (auto simp: ty gv r e)
  from rules_from_enabled_rules [of protoFeature "featuresIn [protoFeature]" "''org_1''" None
      "''production''" None "\<lparr>env_enabled = True, env_rules = Some [rolloutRule]\<rparr>"
      sampleRuntime] p
  have 3: "getFeatureDefinitions sampleRuntime (featuresIn [protoFeature]) ''org_1'' None None
        ''__proto__'' = None
     \<and> prototype (definitionsObject sampleRuntime (featuresIn [protoFeature]) ''org_1'' None None)
       = Some \<lparr>defaultValue = JBool True,
               rules = Some [emptyRule\<lparr>force := Some (JBool False), coverage := Some (Fin 1),
                                       hashAttribute := Some ''id''\<rparr>]\<rparr>"
    by (auto simp: gv r e)
  have 4: "getFeatureDefinitions sampleRuntime (featuresIn [protoFeature]) ''org_1'' None None
             = Map.empty"
    by (simp add: getFeatureDefinitions_def definitionsObject_def emptyObject_def
        addDefinition_def assign_def sample_defs protoFeature_def)
  have 5: "matchesKey (f_id protoFeature)"
    by (simp add: p(3) matchesKey_def keyChar_def)
  from 1 2 3 4 5 members ids p(3) show ?thesis by simp
qed

section \<open>Properties of the services\<close>

lemma join_contains:
  "k \<in> set xs \<Longrightarrow> \<exists>pre post. join sep xs = pre @ k @ post"
proof (induction sep xs rule: join.induct)
  case (1 sep)
  then show ?case by simp
next
  case (2 sep x)
  then have "join sep [x] = [] @ k @ []" by simp
  then show ?case by blast
next
  case (3 sep x y ys)
  show ?case
  proof (cases "k = x")
    case True
    then have "join sep (x # y # ys) = [] @ k @ (sep @ join sep (y # ys))" by simp
    then show ?thesis by blast
  next
    case False
    with 3 obtain pre post where "join sep (y # ys) = pre @ k @ post" by auto
    then have "join sep (x # y # ys) = (x @ sep @ pre) @ k @ post" by simp
    then show ?thesis by blast
  qed
qed

text \<open>
  Claim C9. When the update request holds a key outside the allow-list of tags,
  description, project and owner, \<open>updateFeatureService\<close> throws an error whose
  message lists every invalid key at once. It throws before it calls the persistence
  layer: no call is made, so the feature is not changed.
\<close>

theorem updateFeatureService_rejects_invalid_keys:
  assumes "k \<in> set (Object_keys updates)"
    and "k \<notin> {''tags'', ''description'', ''project'', ''owner''}"
  shows "\<exists>invalidKeys message.
           updateFeatureService findProjectById now updates feature featureId w
             = (Inl (Error message), w)
           \<and> set invalidKeys = {k \<in> set (Object_keys updates).
                                    k \<notin> {''tags'', ''description'', ''project'', ''owner''}}
           \<and> message = ''Invalid update fields for feature: ['' @ join '', '' invalidKeys @ '']''
           \<and> (\<exists>pre post. message = pre @ k @ post)"
proof -
  let ?inv = "filter (\<lambda>k. k \<notin> set allowedKeys) (Object_keys updates)"
  let ?msg = "''Invalid update fields for feature: ['' @ join '', '' ?inv @ '']''"
  from assms have kin: "k \<in> set ?inv" by (simp add: allowedKeys_def)
  from length_pos_if_in_set[OF kin] have ne: "?inv \<noteq> []"
    unfolding length_greater_0_conv .
  have res: "updateFeatureService findProjectById now updates feature featureId w
          = (Inl (Error ?msg), w)"
    using ne by (simp add: updateFeatureService_def Let_def)
  from join_contains[OF kin, of "'', ''"] obtain pre post where "join '', '' ?inv = pre @ k @ post"
    by blast
  then have "?msg = (''Invalid update fields for feature: ['' @ pre) @ k @ (post @ '']'')"
    by simp
  then have sub: "\<exists>pre post. ?msg = pre @ k @ post" by blast
  have "set ?inv = {k \<in> set (Object_keys updates).
                                    k \<notin> {''tags'', ''description'', ''project'', ''owner''}}"
    by (auto simp: allowedKeys_def)
  with res sub show ?thesis by blast
qed

text \<open>
  A request with the keys tags, id, owner and archived is rejected with both invalid
  keys in the message and no call made; without them the update is persisted.
\<close>

theorem updateFeatureService_rejects_invalid_keys_witness:
  "''id'' \<in> set (Object_keys [U_tags [''beta''], U_other ''id'', U_owner ''bob'', U_other ''archived''])
   \<and> updateFeatureService sampleProjects 7
        [U_tags [''beta''], U_other ''id'', U_owner ''bob'', U_other ''archived''] bannerFeature
        ''show-banner'' \<lparr>calls = [], nextId = 0\<rparr>
       = (Inl (Error ''Invalid update fields for feature: [id, archived]''),
          \<lparr>calls = [], nextId = 0\<rparr>)
   \<and> updateFeatureService sampleProjects 7
        [U_tags [''beta''], U_owner ''bob''] bannerFeature
        ''show-banner'' \<lparr>calls = [], nextId = 0\<rparr>
       = (Inr (bannerFeature\<lparr>f_tags := Some [''beta''], f_owner := ''bob''\<rparr>),
          \<lparr>calls = [Call_updateFeature ''org_1'' ''show-banner''
                       [U_tags [''beta''], U_owner ''bob''] 7],
           nextId = 0\<rparr>)"
  using updateFeatureService_rejects_invalid_keys [of "''id''"
      "[U_tags [''beta''], U_other ''id'', U_owner ''bob'', U_other ''archived'']"
      sampleProjects 7 bannerFeature "''show-banner''" "\<lparr>calls = [], nextId = 0\<rparr>"]
  by (simp add: Object_keys_def updateFeatureService_def allowedKeys_def truthy_def
      bannerFeature_def)

lemma parseDefaultValue_boolean:
  "parseDefaultValue rt dv ''boolean'' = Inr (if dv = ''true'' then ''true'' else ''false'')"
  by (simp add: parseDefaultValue_def)

lemma calls_featureUpdated:
  "calls (featureUpdated f envs p w) =
     calls w @ [Call_queueWebhook (f_organization f) (getEnabledEnvironments f @ envs)
                  [p, or_empty (f_project f)] True]"
  by (simp add: featureUpdated_def Let_def)

lemma createFeatureService_success:
  assumes "createFeatureService rt now feature w = (Inr f', w')"
  shows "\<exists>dv es w1.
           parseDefaultValue rt (the (p_defaultValue feature)) (the (p_valueType feature)) = Inr dv
           \<and> addIdsToRules rt (p_environmentSettings feature) (toLowerCase (the (p_id feature))) w
               = (es, w1)
           \<and> f_defaultValue f' = dv
           \<and> f_id f' = toLowerCase (the (p_id feature))
           \<and> f_valueType f' = the (p_valueType feature)
           \<and> f_environmentSettings f' = es
           \<and> w' = featureUpdated f' [] [] (w1\<lparr>calls := calls w1 @ [Call_createFeature f']\<rparr>)
           \<and> truthy (p_id feature) \<and> matchesKey (the (p_id feature))
           \<and> truthy (p_organization feature) \<and> truthy (p_owner feature)
           \<and> truthy (p_valueType feature) \<and> truthy (p_defaultValue feature)
           \<and> the (p_valueType feature) \<in> {''boolean'', ''number'', ''string'', ''json''}"
  using assms
  by (auto simp: createFeatureService_def Let_def split: if_splits sum.splits prod.splits)

lemma createFeatureService_valid:
  assumes "truthy (p_id feature)" "matchesKey (the (p_id feature))"
    "truthy (p_organization feature)" "truthy (p_owner feature)"
    "p_valueType feature = Some ''boolean''" "truthy (p_defaultValue feature)"
  shows "\<exists>f' w'. createFeatureService rt now feature w = (Inr f', w')"
  using assms
  by (simp add: createFeatureService_def Let_def parseDefaultValue_boolean truthy_def
      split: prod.splits)

text \<open>
  Claim C10. A feature created through \<open>createFeatureService\<close> with the value type
  boolean is stored with the default "true" when the request's default is the string
  "true", and with "false" for every other default that the service accepts; a request
  that passes the checks is created. So the defaults "yes" and "1" are stored as
  "false", although the value coercer maps those strings to true.
\<close>

theorem createFeatureService_boolean_default:
  assumes "p_valueType feature = Some ''boolean''"
  shows "(createFeatureService rt now feature w = (Inr f', w') \<longrightarrow>
            f_defaultValue f' =
              (if p_defaultValue feature = Some ''true'' then ''true'' else ''false'')
            \<and> Call_createFeature f' \<in> set (calls w'))
         \<and> (truthy (p_id feature) \<and> matchesKey (the (p_id feature))
              \<and> truthy (p_organization feature) \<and> truthy (p_owner feature)
              \<and> truthy (p_defaultValue feature) \<longrightarrow>
             (\<exists>f w'. createFeatureService rt now feature w = (Inr f, w')))
         \<and> parseDefaultValue rt ''yes'' ''boolean'' = Inr ''false''
         \<and> parseDefaultValue rt ''1'' ''boolean'' = Inr ''false''
         \<and> getJSONValue rt ''boolean'' ''yes'' = JBool True
         \<and> getJSONValue rt ''boolean'' ''1'' = JBool True"
proof (intro conjI impI)
  assume ok: "createFeatureService rt now feature w = (Inr f', w')"
  from createFeatureService_success[OF ok] obtain dv es w1 where
    dv: "parseDefaultValue rt (the (p_defaultValue feature)) (the (p_valueType feature)) = Inr dv"
    and f: "f_defaultValue f' = dv"
    and w: "w' = featureUpdated f' [] [] (w1\<lparr>calls := calls w1 @ [Call_createFeature f']\<rparr>)"
    and t: "truthy (p_defaultValue feature)"
    by blast
  from t obtain d where d: "p_defaultValue feature = Some d" by (auto simp: truthy_def split: option.splits)
  from dv f d assms
  show "f_defaultValue f' = (if p_defaultValue feature = Some ''true'' then ''true'' else ''false'')"
    by (simp add: parseDefaultValue_boolean)
  from w show "Call_createFeature f' \<in> set (calls w')" by (simp add: calls_featureUpdated)
next
  assume "truthy (p_id feature) \<and> matchesKey (the (p_id feature))
              \<and> truthy (p_organization feature) \<and> truthy (p_owner feature)
              \<and> truthy (p_defaultValue feature)"
  with assms show "\<exists>f w'. createFeatureService rt now feature w = (Inr f, w')"
    by (simp add: createFeatureService_valid)
qed (simp_all add: parseDefaultValue_boolean getJSONValue_def)

lemma matchesKey_banner: "matchesKey ''Show-Banner''"
  by (simp add: matchesKey_def keyChar_def)

lemma toLowerCase_banner: "toLowerCase ''Show-Banner'' = ''show-banner''"
  by (simp add: toLowerCase_def lowerChar_def)

text \<open>
  The request with the default "yes" creates the feature with the default "false", gives
  its rule an id, and queues the webhook.
\<close>

theorem createFeatureService_boolean_default_witness:
  "p_valueType bannerRequest = Some ''boolean''
   \<and> createFeatureService sampleRuntime 7 bannerRequest \<lparr>calls = [], nextId = 0\<rparr>
       = (Inr (bannerFeature\<lparr>f_defaultValue := ''false'', f_dateCreated := 7, f_dateUpdated := 7,
                 f_environmentSettings :=
                   Some [(''production'',
                          \<lparr>env_enabled = True,
                           env_rules = Some [rolloutRule\<lparr>r_id := Some ''fr_a''\<rparr>]\<rparr>)]\<rparr>),
          \<lparr>calls =
             [Call_createFeature
                (bannerFeature\<lparr>f_defaultValue := ''false'', f_dateCreated := 7,
                   f_dateUpdated := 7,
                   f_environmentSettings :=
                     Some [(''production'',
                            \<lparr>env_enabled = True,
                             env_rules = Some [rolloutRule\<lparr>r_id := Some ''fr_a''\<rparr>]\<rparr>)]\<rparr>),
              Call_queueWebhook ''org_1'' [''production''] [[], []] True],
           nextId = 1\<rparr>)
   \<and> getJSONValue sampleRuntime ''boolean'' ''yes'' = JBool True"
  using createFeatureService_boolean_default [of bannerRequest sampleRuntime 7
      "\<lparr>calls = [], nextId = 0\<rparr>"]
  by (simp add: bannerRequest_def createFeatureService_def truthy_def matchesKey_banner
      toLowerCase_banner parseDefaultValue_def addIdsToRules_def generateRuleId_def
      rolloutRule_def bannerFeature_def featureUpdated_def getEnabledEnvironments_def
      or_empty_def sampleRuntime_def getJSONValue_def Let_def)

end
